theory Spec2Isabelle
  imports Complex_Main
begin

section \<open>Scalars\<close>

text \<open>
  Modelled from the spec: \<^verbatim>\<open>tReal\<close>, the scalar type, is declared in a header that is not
  among the sources. The specification describes unguarded floating-point arithmetic and
  states its properties up to rounding, that is, in exact real arithmetic. A scalar is
  therefore a real number, or \<open>Undef\<close> where real arithmetic gives no value: the quotient
  by zero, the root of a negative number, and everything computed from such a value (the
  infinities and NaN of the floating-point unit, which the program neither tests nor
  traps).
\<close>

datatype tReal = Val real | Undef

instantiation tReal :: "{zero, one, plus, minus, times, inverse, numeral}"
begin

definition zero_tReal :: tReal where
  "zero_tReal = Val 0"

definition one_tReal :: tReal where
  "one_tReal = Val 1"

definition plus_tReal :: "tReal \<Rightarrow> tReal \<Rightarrow> tReal" where
  "plus_tReal u v = (case (u, v) of (Val r, Val s) \<Rightarrow> Val (r + s) | _ \<Rightarrow> Undef)"

definition minus_tReal :: "tReal \<Rightarrow> tReal \<Rightarrow> tReal" where
  "minus_tReal u v = (case (u, v) of (Val r, Val s) \<Rightarrow> Val (r - s) | _ \<Rightarrow> Undef)"

definition times_tReal :: "tReal \<Rightarrow> tReal \<Rightarrow> tReal" where
  "times_tReal u v = (case (u, v) of (Val r, Val s) \<Rightarrow> Val (r * s) | _ \<Rightarrow> Undef)"

definition divide_tReal :: "tReal \<Rightarrow> tReal \<Rightarrow> tReal" where
  "divide_tReal u v =
     (case (u, v) of (Val r, Val s) \<Rightarrow> if s = 0 then Undef else Val (r / s) | _ \<Rightarrow> Undef)"

definition inverse_tReal :: "tReal \<Rightarrow> tReal" where
  "inverse_tReal u =
     (case u of Val s \<Rightarrow> if s = 0 then Undef else Val (1 / s) | Undef \<Rightarrow> Undef)"

instance
proof
  fix u v w :: tReal
  show "u + v + w = u + (v + w)"
    by (cases u; cases v; cases w) (simp_all add: plus_tReal_def)
qed

end

text \<open>\<^verbatim>\<open>std::sqrt\<close>: no real value on a negative argument.\<close>

definition tsqrt :: "tReal \<Rightarrow> tReal" where
  "tsqrt u = (case u of Val r \<Rightarrow> if r < 0 then Undef else Val (sqrt r) | Undef \<Rightarrow> Undef)"

text \<open>The conversion of an \<^verbatim>\<open>int\<close> operand in a mixed expression.\<close>

definition tReal_of_int :: "int \<Rightarrow> tReal" where
  "tReal_of_int i = Val (of_int i)"

definition is_real :: "tReal \<Rightarrow> bool" where
  "is_real u = (case u of Val r \<Rightarrow> True | Undef \<Rightarrow> False)"

text \<open>
  Modelled from the spec: \<^verbatim>\<open>tIndex\<close>, the type of the step counter, is declared in a header
  that is not among the sources; the specification describes the counter as a
  monotonically increasing non-negative integer that starts at 0.
\<close>

type_synonym tIndex = nat


section \<open>Vectors and matrices\<close>

text \<open>
  Modelled from the spec: \<^verbatim>\<open>Vec3f\<close> and \<^verbatim>\<open>Mat3f\<close> (Vector3.hpp, Matrix3x3.hpp) are not among
  the sources. The specification describes them as fixed-size 3-element vector and
  3\<times>3 matrix value types with componentwise arithmetic, scalar scaling, transpose, and
  matrix-vector and matrix-matrix product. A matrix lists its entries row by row.
\<close>

datatype Vec3f = Vec3f (vx: tReal) (vy: tReal) (vz: tReal)

datatype Mat3f = Mat3f
  (m00: tReal) (m01: tReal) (m02: tReal)
  (m10: tReal) (m11: tReal) (m12: tReal)
  (m20: tReal) (m21: tReal) (m22: tReal)

text \<open>Modelled from the spec: \<^verbatim>\<open>u + v\<close> and \<^verbatim>\<open>u += v\<close> on vectors, componentwise.\<close>

definition vadd :: "Vec3f \<Rightarrow> Vec3f \<Rightarrow> Vec3f" where
  "vadd u v = Vec3f (vx u + vx v) (vy u + vy v) (vz u + vz v)"

text \<open>Modelled from the spec: \<^verbatim>\<open>v * k\<close>, a vector scaled by a scalar on its right.\<close>

definition vmuls :: "Vec3f \<Rightarrow> tReal \<Rightarrow> Vec3f" where
  "vmuls v k = Vec3f (vx v * k) (vy v * k) (vz v * k)"

text \<open>Modelled from the spec: \<^verbatim>\<open>k * v\<close>, a vector scaled by a scalar on its left.\<close>

definition smulv :: "tReal \<Rightarrow> Vec3f \<Rightarrow> Vec3f" where
  "smulv k v = Vec3f (k * vx v) (k * vy v) (k * vz v)"

text \<open>Modelled from the spec: \<^verbatim>\<open>v / k\<close>, every component divided by a scalar.\<close>

definition vdivs :: "Vec3f \<Rightarrow> tReal \<Rightarrow> Vec3f" where
  "vdivs v k = Vec3f (vx v / k) (vy v / k) (vz v / k)"

text \<open>Modelled from the spec: \<^verbatim>\<open>Mat3f::I()\<close>, the identity matrix.\<close>

definition Mat3f_I :: Mat3f where
  "Mat3f_I = Mat3f 1 0 0  0 1 0  0 0 1"

text \<open>Modelled from the spec: \<^verbatim>\<open>A * v\<close>, the matrix-vector product.\<close>

definition mmulv :: "Mat3f \<Rightarrow> Vec3f \<Rightarrow> Vec3f" where
  "mmulv A v = Vec3f
     (m00 A * vx v + m01 A * vy v + m02 A * vz v)
     (m10 A * vx v + m11 A * vy v + m12 A * vz v)
     (m20 A * vx v + m21 A * vy v + m22 A * vz v)"

text \<open>Modelled from the spec: \<^verbatim>\<open>k * A\<close>, a matrix scaled by a scalar.\<close>

definition smulm :: "tReal \<Rightarrow> Mat3f \<Rightarrow> Mat3f" where
  "smulm k A = Mat3f
     (k * m00 A) (k * m01 A) (k * m02 A)
     (k * m10 A) (k * m11 A) (k * m12 A)
     (k * m20 A) (k * m21 A) (k * m22 A)"

text \<open>Modelled from the spec: the transpose.\<close>

definition transpose_Mat3f :: "Mat3f \<Rightarrow> Mat3f" where
  "transpose_Mat3f A = Mat3f
     (m00 A) (m10 A) (m20 A)
     (m01 A) (m11 A) (m21 A)
     (m02 A) (m12 A) (m22 A)"

text \<open>Modelled from the spec: \<^verbatim>\<open>A * B\<close>, the matrix-matrix product.\<close>

definition mmul :: "Mat3f \<Rightarrow> Mat3f \<Rightarrow> Mat3f" where
  "mmul A B = Mat3f
     (m00 A * m00 B + m01 A * m10 B + m02 A * m20 B)
     (m00 A * m01 B + m01 A * m11 B + m02 A * m21 B)
     (m00 A * m02 B + m01 A * m12 B + m02 A * m22 B)
     (m10 A * m00 B + m11 A * m10 B + m12 A * m20 B)
     (m10 A * m01 B + m11 A * m11 B + m12 A * m21 B)
     (m10 A * m02 B + m11 A * m12 B + m12 A * m22 B)
     (m20 A * m00 B + m21 A * m10 B + m22 A * m20 B)
     (m20 A * m01 B + m21 A * m11 B + m22 A * m21 B)
     (m20 A * m02 B + m21 A * m12 B + m22 A * m22 B)"

text \<open>
  Modelled from the spec: \<^verbatim>\<open>A.mulTranspose(B)\<close>, the product of \<open>A\<close> with the transpose of
  \<open>B\<close>; the specification gives the world-space inverse inertia as \<open>R \<cdot> I0inv \<cdot> R\<^sup>t\<close>.
\<close>

definition mulTranspose :: "Mat3f \<Rightarrow> Mat3f \<Rightarrow> Mat3f" where
  "mulTranspose A B = mmul A (transpose_Mat3f B)"

text \<open>The determinant, by expansion along the first row.\<close>

definition det :: "Mat3f \<Rightarrow> tReal" where
  "det A =
     m00 A * (m11 A * m22 A - m12 A * m21 A)
     - m01 A * (m10 A * m22 A - m12 A * m20 A)
     + m02 A * (m10 A * m21 A - m11 A * m20 A)"

definition is_real_Vec3f :: "Vec3f \<Rightarrow> bool" where
  "is_real_Vec3f v = (is_real (vx v) \<and> is_real (vy v) \<and> is_real (vz v))"

definition is_real_Mat3f :: "Mat3f \<Rightarrow> bool" where
  "is_real_Mat3f A =
     (is_real (m00 A) \<and> is_real (m01 A) \<and> is_real (m02 A) \<and>
      is_real (m10 A) \<and> is_real (m11 A) \<and> is_real (m12 A) \<and>
      is_real (m20 A) \<and> is_real (m21 A) \<and> is_real (m22 A))"


section \<open>Quaternion.hpp\<close>

datatype Quaternion = Quaternion (qa: tReal) (qb: tReal) (qc: tReal) (qd: tReal)

text \<open>\<^verbatim>\<open>operator*(Quaternion const &)\<close> and \<^verbatim>\<open>operator+(Quaternion const &)\<close>.\<close>

instantiation Quaternion :: "{plus, times}"
begin

definition times_Quaternion :: "Quaternion \<Rightarrow> Quaternion \<Rightarrow> Quaternion" where
  "times_Quaternion p x = Quaternion
     (qa p * qa x - qb p * qb x - qc p * qc x - qd p * qd x)
     (qa p * qb x + qb p * qa x + qc p * qd x - qd p * qc x)
     (qa p * qc x - qb p * qd x + qc p * qa x + qd p * qb x)
     (qa p * qd x + qb p * qc x - qc p * qb x + qd p * qa x)"

definition plus_Quaternion :: "Quaternion \<Rightarrow> Quaternion \<Rightarrow> Quaternion" where
  "plus_Quaternion p x = Quaternion (qa p + qa x) (qb p + qb x) (qc p + qc x) (qd p + qd x)"

instance ..

end

definition toRotationMatrix :: "Quaternion \<Rightarrow> Mat3f" where
  "toRotationMatrix p = Mat3f
     (1 - 2 * (qc p * qc p + qd p * qd p))
     (2 * (qb p * qc p - qa p * qd p))
     (2 * (qb p * qd p + qa p * qc p))

     (2 * (qb p * qc p + qa p * qd p))
     (1 - 2 * (qb p * qb p + qd p * qd p))
     (2 * (qc p * qd p - qa p * qb p))

     (2 * (qb p * qd p - qa p * qc p))
     (2 * (qc p * qd p + qa p * qb p))
     (1 - 2 * (qb p * qb p - qc p * qc p))"

text \<open>\<^verbatim>\<open>operator*(tReal const &)\<close>: the scalar stands on the right, and multiplies on the left.\<close>

definition qmuls :: "Quaternion \<Rightarrow> tReal \<Rightarrow> Quaternion" where
  "qmuls p k = Quaternion (k * qa p) (k * qb p) (k * qc p) (k * qd p)"

definition dot :: "Quaternion \<Rightarrow> Quaternion \<Rightarrow> tReal" where
  "dot p q = qa p * qa q + qb p * qb q + qc p * qc q + qd p * qd q"

text \<open>\<^verbatim>\<open>normalize\<close> assigns to \<^verbatim>\<open>*this\<close>; here it returns the new value.\<close>

definition normalize :: "Quaternion \<Rightarrow> Quaternion" where
  "normalize p = qmuls p (Val 1.0 / tsqrt (dot p p))"

text \<open>The norm of a quaternion, the root of its dot product with itself.\<close>

definition qnorm :: "Quaternion \<Rightarrow> tReal" where
  "qnorm p = tsqrt (dot p p)"








text \<open>
  Modelled from the spec: the standard unit-quaternion-to-matrix formula, which the
  specification names as the contract of \<^verbatim>\<open>toRotationMatrix\<close> without writing it out. It is
  the rotation matrix of a unit quaternion, the matrix that the specification requires
  \<^verbatim>\<open>R\<close> to be for the quaternion \<^verbatim>\<open>Q\<close> of a body.
\<close>

definition rotation_matrix :: "Quaternion \<Rightarrow> Mat3f" where
  "rotation_matrix p = Mat3f
     (1 - 2 * (qc p * qc p + qd p * qd p))
     (2 * (qb p * qc p - qa p * qd p))
     (2 * (qb p * qd p + qa p * qc p))

     (2 * (qb p * qc p + qa p * qd p))
     (1 - 2 * (qb p * qb p + qd p * qd p))
     (2 * (qc p * qd p - qa p * qb p))

     (2 * (qb p * qd p - qa p * qc p))
     (2 * (qc p * qd p + qa p * qb p))
     (1 - 2 * (qb p * qb p + qc p * qc p))"

definition is_real_Quaternion :: "Quaternion \<Rightarrow> bool" where
  "is_real_Quaternion p = (is_real (qa p) \<and> is_real (qb p) \<and> is_real (qc p) \<and> is_real (qd p))"


section \<open>RigidSolver.hpp\<close>

record BodyAttributes =
  M :: tReal
  I0 :: Mat3f
  I0inv :: Mat3f
  Iinv :: Mat3f
  X :: Vec3f
  R :: Mat3f
  Q :: Quaternion
  P :: Vec3f
  L :: Vec3f
  V :: Vec3f
  omega :: Vec3f
  F :: Vec3f
  tau :: Vec3f
  vdata0 :: "Vec3f list"

text \<open>
  The constructor \<^verbatim>\<open>BodyAttributes()\<close>. It names no value for \<^verbatim>\<open>M\<close>, \<^verbatim>\<open>I0\<close>, \<^verbatim>\<open>I0inv\<close> and
  \<^verbatim>\<open>Iinv\<close>, which stand here without a value (\<open>Undef\<close>); the constructor of \<^verbatim>\<open>Box\<close> assigns all
  four before any of them is read.
\<close>

definition BodyAttributes_ctor :: BodyAttributes where
  "BodyAttributes_ctor =
     \<lparr>M = Undef,
      I0 = Mat3f Undef Undef Undef Undef Undef Undef Undef Undef Undef,
      I0inv = Mat3f Undef Undef Undef Undef Undef Undef Undef Undef Undef,
      Iinv = Mat3f Undef Undef Undef Undef Undef Undef Undef Undef Undef,
      X = Vec3f 0 0 0, R = Mat3f_I, Q = Quaternion 1 0 0 0, P = Vec3f 0 0 0, L = Vec3f 0 0 0,
      V = Vec3f 0 0 0, omega = Vec3f 0 0 0, F = Vec3f 0 0 0, tau = Vec3f 0 0 0,
      vdata0 = []\<rparr>"

record Box = BodyAttributes +
  width :: tReal
  height :: tReal
  depth :: tReal

text \<open>
  The constructor of \<^verbatim>\<open>Box\<close>: the base constructor, the member initialisers, then the body,
  statement by statement. \<^verbatim>\<open>(1/12)\<close> divides two \<^verbatim>\<open>int\<close> literals, so the quotient is the
  integer quotient; \<^verbatim>\<open>12 / M\<close> and \<^verbatim>\<open>1/(h * h + d * d)\<close> have a \<^verbatim>\<open>tReal\<close> divisor.
\<close>

definition Box :: "tReal \<Rightarrow> tReal \<Rightarrow> tReal \<Rightarrow> tReal \<Rightarrow> Vec3f \<Rightarrow> Vec3f \<Rightarrow> Box" where
  "Box w h d dens v0 omega0 =
     (let b = BodyAttributes.extend BodyAttributes_ctor (Box.fields w h d);
          b = b\<lparr>V := v0\<rparr>;
          b = b\<lparr>omega := omega0\<rparr>;
          b = b\<lparr>M := dens * w * h * d\<rparr>;
          b = b\<lparr>I0 := smulm (tReal_of_int (1 div 12) * M b) (Mat3f
                 (h * h + d * d) 0 0
                 0 (w * w + d * d) 0
                 0 0 (w * w + h * h))\<rparr>;
          b = b\<lparr>I0inv := smulm (tReal_of_int 12 / M b) (Mat3f
                 (tReal_of_int 1 / (h * h + d * d)) 0 0
                 0 (tReal_of_int 1 / (w * w + d * d)) 0
                 0 0 (tReal_of_int 1 / (w * w + h * h)))\<rparr>;
          b = b\<lparr>Iinv := mmul (R b) (mulTranspose (I0inv b) (R b))\<rparr>;
          b = b\<lparr>vdata0 := vdata0 b @ [Vec3f (Val (- 0.5) * w) (Val (- 0.5) * h) (Val (- 0.5) * d)]\<rparr>;
          b = b\<lparr>vdata0 := vdata0 b @ [Vec3f (Val 0.5 * w) (Val (- 0.5) * h) (Val (- 0.5) * d)]\<rparr>;
          b = b\<lparr>vdata0 := vdata0 b @ [Vec3f (Val 0.5 * w) (Val 0.5 * h) (Val (- 0.5) * d)]\<rparr>;
          b = b\<lparr>vdata0 := vdata0 b @ [Vec3f (Val (- 0.5) * w) (Val 0.5 * h) (Val (- 0.5) * d)]\<rparr>;
          b = b\<lparr>vdata0 := vdata0 b @ [Vec3f (Val (- 0.5) * w) (Val (- 0.5) * h) (Val 0.5 * d)]\<rparr>;
          b = b\<lparr>vdata0 := vdata0 b @ [Vec3f (Val 0.5 * w) (Val (- 0.5) * h) (Val 0.5 * d)]\<rparr>;
          b = b\<lparr>vdata0 := vdata0 b @ [Vec3f (Val 0.5 * w) (Val 0.5 * h) (Val 0.5 * d)]\<rparr>;
          b = b\<lparr>vdata0 := vdata0 b @ [Vec3f (Val (- 0.5) * w) (Val 0.5 * h) (Val 0.5 * d)]\<rparr>
      in b)"

text \<open>
  \<^verbatim>\<open>Box()\<close>, with the default arguments of the constructor. A solver is given the address of
  a box as a pointer to its base class: \<open>BodyAttributes.truncate\<close> is that view of a box.
\<close>

definition Box_default :: Box where
  "Box_default = Box (Val 1.0) (Val 1.0) (Val 1.0) (Val 10.0) (Vec3f 0 0 0) (Vec3f 0 0 0)"

text \<open>
  The solver holds a pointer to the body it advances: \<open>None\<close> is \<^verbatim>\<open>nullptr\<close>, and \<open>Some b\<close> a
  pointer to a body whose present value is \<open>b\<close>. \<open>s_g\<close>, \<open>s_step\<close> and \<open>s_sim_t\<close> are the
  private members \<^verbatim>\<open>_g\<close>, \<^verbatim>\<open>_step\<close> and \<^verbatim>\<open>_sim_t\<close>.
\<close>

record RigidSolver =
  body :: "BodyAttributes option"
  s_g :: Vec3f
  s_step :: tIndex
  s_sim_t :: tReal

definition RigidSolver_ctor :: "BodyAttributes option \<Rightarrow> Vec3f \<Rightarrow> RigidSolver" where
  "RigidSolver_ctor body0 g = \<lparr>body = body0, s_g = g, s_step = 0, s_sim_t = 0\<rparr>"

text \<open>\<^verbatim>\<open>RigidSolver()\<close>, with the default arguments of the constructor.\<close>

definition RigidSolver_default :: RigidSolver where
  "RigidSolver_default = RigidSolver_ctor None (Vec3f 0 0 0)"

definition init :: "BodyAttributes option \<Rightarrow> RigidSolver \<Rightarrow> RigidSolver" where
  "init body0 s = s\<lparr>body := body0, s_step := 0, s_sim_t := 0\<rparr>"

text \<open>
  \<^verbatim>\<open>computeForceAndTorque\<close> and \<^verbatim>\<open>step\<close> write through the pointer: on \<^verbatim>\<open>nullptr\<close> they have no
  behaviour, which is the result \<open>None\<close>. The lines printed to the console are left out.
\<close>

definition computeForceAndTorque :: "RigidSolver \<Rightarrow> RigidSolver option" where
  "computeForceAndTorque s =
     (case body s of
        None \<Rightarrow> None
      | Some b \<Rightarrow>
          let b = b\<lparr>F := vmuls (s_g s) (Val 0.1)\<rparr>;
              b = b\<lparr>tau := Vec3f 0 0 0\<rparr>;
              b = (if s_step s = 1
                   then let b = b\<lparr>F := vadd (F b) (vdivs (Vec3f (Val 1.0) 7 (Val 2.4)) (Val 5.0))\<rparr>;
                            b = b\<lparr>tau := Vec3f (Val 0.005) (Val 0.005) (Val 0.0)\<rparr>
                        in b
                   else b)
          in Some (s\<lparr>body := Some b\<rparr>))"

definition step :: "tReal \<Rightarrow> RigidSolver \<Rightarrow> RigidSolver option" where
  "step dt s =
     (case computeForceAndTorque s of
        None \<Rightarrow> None
      | Some s \<Rightarrow>
          (case body s of
             None \<Rightarrow> None
           | Some b \<Rightarrow>
               let b = b\<lparr>V := vdivs (P b) (M b)\<rparr>;
                   b = b\<lparr>omega := mmulv (Iinv b) (L b)\<rparr>;
                   b = b\<lparr>P := vadd (P b) (smulv dt (F b))\<rparr>;
                   b = b\<lparr>L := vadd (L b) (smulv dt (tau b))\<rparr>;
                   b = b\<lparr>X := vadd (X b) (smulv dt (V b))\<rparr>;
                   b = b\<lparr>Q := Q b
                          + qmuls (Quaternion 0 (vx (omega b)) (vy (omega b)) (vz (omega b)) * Q b) dt\<rparr>;
                   b = b\<lparr>Q := normalize (Q b)\<rparr>;
                   b = b\<lparr>R := toRotationMatrix (Q b)\<rparr>
               in Some (s\<lparr>body := Some b, s_step := s_step s + 1, s_sim_t := s_sim_t s + dt\<rparr>)))"

text \<open>The driving loop: one call to \<^verbatim>\<open>step\<close> for each increment of the list, in order.\<close>

fun steps :: "tReal list \<Rightarrow> RigidSolver \<Rightarrow> RigidSolver option" where
  "steps [] s = Some s"
| "steps (dt # dts) s = (case step dt s of None \<Rightarrow> None | Some s' \<Rightarrow> steps dts s')"


section \<open>Arithmetic of scalars\<close>

lemma numeral_tReal: "(numeral k :: tReal) = Val (numeral k)"
proof (induction k)
  case One
  show ?case by (simp add: one_tReal_def)
next
  case (Bit0 k)
  have "(numeral (num.Bit0 k) :: tReal) = Val (numeral k) + Val (numeral k)"
    by (simp only: numeral_Bit0 Bit0.IH)
  also have "\<dots> = Val (numeral (num.Bit0 k))"
    by (simp add: plus_tReal_def numeral_Bit0)
  finally show ?case .
next
  case (Bit1 k)
  have "(numeral (num.Bit1 k) :: tReal) = Val (numeral k) + Val (numeral k) + Val 1"
    by (simp only: numeral_Bit1 Bit1.IH one_tReal_def)
  also have "\<dots> = Val (numeral (num.Bit1 k))"
    by (simp add: plus_tReal_def numeral_Bit1)
  finally show ?case .
qed

lemma Val_plus: "Val r + Val s = Val (r + s)"
  by (simp add: plus_tReal_def)

lemma Val_minus: "Val r - Val s = Val (r - s)"
  by (simp add: minus_tReal_def)

lemma Val_times: "Val r * Val s = Val (r * s)"
  by (simp add: times_tReal_def)

lemma Val_divide: "Val r / Val s = (if s = 0 then Undef else Val (r / s))"
  by (simp add: divide_tReal_def)

lemma Undef_plus: "Undef + u = Undef" "u + Undef = Undef"
  by (simp_all add: plus_tReal_def split: tReal.split)

lemma Undef_minus: "Undef - u = Undef" "u - Undef = Undef"
  by (simp_all add: minus_tReal_def split: tReal.split)

lemma Undef_times: "Undef * u = Undef" "u * Undef = Undef"
  by (simp_all add: times_tReal_def split: tReal.split)

lemma Undef_divide: "Undef / u = Undef" "u / Undef = Undef"
  by (simp_all add: divide_tReal_def split: tReal.split)

lemma tsqrt_Val: "tsqrt (Val r) = (if r < 0 then Undef else Val (sqrt r))"
  by (simp add: tsqrt_def)

lemma tsqrt_Undef: "tsqrt Undef = Undef"
  by (simp add: tsqrt_def)

lemmas tReal_arith =
  Val_plus Val_minus Val_times Val_divide Undef_plus Undef_minus Undef_times Undef_divide
  tsqrt_Val tsqrt_Undef zero_tReal_def one_tReal_def numeral_tReal tReal_of_int_def

lemma is_real_iff: "is_real u \<longleftrightarrow> (\<exists>r. u = Val r)"
  by (cases u) (simp_all add: is_real_def)

subsection \<open>The Hamilton product\<close>

lemma times_Quaternion_Val:
  "Quaternion (Val a1) (Val b1) (Val c1) (Val d1) * Quaternion (Val a2) (Val b2) (Val c2) (Val d2) =
   Quaternion
     (Val (a1 * a2 - b1 * b2 - c1 * c2 - d1 * d2))
     (Val (a1 * b2 + b1 * a2 + c1 * d2 - d1 * c2))
     (Val (a1 * c2 - b1 * d2 + c1 * a2 + d1 * b2))
     (Val (a1 * d2 + b1 * c2 - c1 * b2 + d1 * a2))"
  by (simp add: times_Quaternion_def tReal_arith)

lemma times_Quaternion_Undef_left:
  "\<not> is_real_Quaternion p \<Longrightarrow> p * x = Quaternion Undef Undef Undef Undef"
  by (cases p) (auto simp add: is_real_Quaternion_def is_real_def times_Quaternion_def tReal_arith split: tReal.splits)

lemma times_Quaternion_Undef_right:
  "\<not> is_real_Quaternion x \<Longrightarrow> p * x = Quaternion Undef Undef Undef Undef"
  by (cases x) (auto simp add: is_real_Quaternion_def is_real_def times_Quaternion_def tReal_arith split: tReal.splits)

lemma is_real_QuaternionE:
  assumes "is_real_Quaternion p"
  obtains a b c d where "p = Quaternion (Val a) (Val b) (Val c) (Val d)"
  using assms by (cases p) (auto simp add: is_real_Quaternion_def is_real_iff)

text \<open>
  C10: the Hamilton product of \<^verbatim>\<open>operator*\<close> is associative: for all quaternions \<open>p\<close>,
  \<open>q\<close>, \<open>r\<close>, \<open>(p * q) * r\<close> and \<open>p * (q * r)\<close> have the same four components. This also holds
  when a component has no real value: both products then have none.
\<close>

theorem times_Quaternion_assoc: "(p * q) * r = p * (q * (r::Quaternion))"
proof (cases "is_real_Quaternion p \<and> is_real_Quaternion q \<and> is_real_Quaternion r")
  case True
  then obtain a1 b1 c1 d1 a2 b2 c2 d2 a3 b3 c3 d3 where
    p: "p = Quaternion (Val a1) (Val b1) (Val c1) (Val d1)" and
    q: "q = Quaternion (Val a2) (Val b2) (Val c2) (Val d2)" and
    r: "r = Quaternion (Val a3) (Val b3) (Val c3) (Val d3)"
    by (metis is_real_QuaternionE)
  show ?thesis
    unfolding p q r times_Quaternion_Val
    by (simp add: algebra_simps)
next
  case False
  have U: "\<not> is_real_Quaternion (Quaternion Undef Undef Undef Undef)"
    by (simp add: is_real_Quaternion_def is_real_def)
  from False consider "\<not> is_real_Quaternion p" | "\<not> is_real_Quaternion q" | "\<not> is_real_Quaternion r"
    by blast
  then show ?thesis
  proof cases
    case 1
    then show ?thesis
      by (simp add: times_Quaternion_Undef_left U)
  next
    case 2
    then show ?thesis
      by (simp add: times_Quaternion_Undef_left times_Quaternion_Undef_right U)
  next
    case 3
    then show ?thesis
      by (simp add: times_Quaternion_Undef_right U)
  qed
qed

subsection \<open>Normalisation\<close>

lemma times_real_cases: "u * v = Val t \<Longrightarrow> \<exists>r s. u = Val r \<and> v = Val s"
  by (cases u; cases v) (simp_all add: tReal_arith)

lemma plus_real_cases: "u + v = Val t \<Longrightarrow> \<exists>r s. u = Val r \<and> v = Val s"
  by (cases u; cases v) (simp_all add: tReal_arith)

lemma dot_self_real:
  assumes "dot p p = Val s"
  obtains a b c d where "p = Quaternion (Val a) (Val b) (Val c) (Val d)"
    and "s = a * a + b * b + c * c + d * d"
proof -
  obtain u1 u2 u3 u4 where p: "p = Quaternion u1 u2 u3 u4" by (cases p)
  from assms have e: "u1 * u1 + u2 * u2 + u3 * u3 + u4 * u4 = Val s"
    by (simp add: p dot_def)
  then obtain t3 where "u1 * u1 + u2 * u2 + u3 * u3 = Val t3" and "\<exists>r. u4 = Val r"
    using plus_real_cases times_real_cases by metis
  then obtain t2 where "u1 * u1 + u2 * u2 = Val t2" and "\<exists>r. u3 = Val r" and "\<exists>r. u4 = Val r"
    using plus_real_cases times_real_cases by metis
  then have "\<exists>r. u1 = Val r" and "\<exists>r. u2 = Val r" and "\<exists>r. u3 = Val r" and "\<exists>r. u4 = Val r"
    using plus_real_cases times_real_cases by metis+
  then obtain a b c d where u: "u1 = Val a" "u2 = Val b" "u3 = Val c" "u4 = Val d"
    by blast
  with e have "s = a * a + b * b + c * c + d * d"
    by (simp add: tReal_arith)
  with p u that show thesis by blast
qed

lemma unit_scaling:
  fixes a b c d :: real
  assumes "0 < a * a + b * b + c * c + d * d"
  defines "k \<equiv> 1 / sqrt (a * a + b * b + c * c + d * d)"
  shows "k * a * (k * a) + k * b * (k * b) + k * c * (k * c) + k * d * (k * d) = 1"
proof -
  let ?s = "a * a + b * b + c * c + d * d"
  have "k * k = 1 / ?s"
    using assms(1) by (simp add: k_def)
  moreover have "k * a * (k * a) + k * b * (k * b) + k * c * (k * c) + k * d * (k * d)
      = (k * k) * ?s"
    by (simp add: algebra_simps)
  ultimately show ?thesis
    using assms(1) by simp
qed

lemma normalize_Val:
  assumes "0 < a * a + b * b + c * c + d * d"
  shows "normalize (Quaternion (Val a) (Val b) (Val c) (Val d)) =
    Quaternion (Val (1 / sqrt (a * a + b * b + c * c + d * d) * a))
      (Val (1 / sqrt (a * a + b * b + c * c + d * d) * b))
      (Val (1 / sqrt (a * a + b * b + c * c + d * d) * c))
      (Val (1 / sqrt (a * a + b * b + c * c + d * d) * d))"
proof -
  have "\<not> a * a + b * b + c * c + d * d < 0" and "sqrt (a * a + b * b + c * c + d * d) \<noteq> 0"
    using assms by simp_all
  then show ?thesis
    by (simp add: normalize_def qmuls_def dot_def tReal_arith)
qed

lemma dot_normalize_Val:
  assumes "0 < a * a + b * b + c * c + d * d"
  shows "dot (normalize (Quaternion (Val a) (Val b) (Val c) (Val d)))
             (normalize (Quaternion (Val a) (Val b) (Val c) (Val d))) = Val 1"
  unfolding normalize_Val [OF assms]
  using unit_scaling [OF assms]
  by (simp add: dot_def tReal_arith)

lemma sum_squares_pos:
  fixes a b c d :: real
  shows "a * a + b * b + c * c + d * d \<noteq> 0 \<Longrightarrow> 0 < a * a + b * b + c * c + d * d"
  by (smt (verit) zero_le_square)








subsection \<open>The rotation matrix\<close>

text \<open>
  C1: \<^verbatim>\<open>toRotationMatrix\<close> at the unit quaternion \<open>(0, 0, 1, 0)\<close>, the half turn about the second
  axis. The last entry is computed as \<open>1 - 2 * (b * b - c * c)\<close>, which is 3 here, where the
  rotation matrix has \<open>1 - 2 * (b * b + c * c) = - 1\<close>: the result is \<open>diag (- 1, 1, 3)\<close>, its
  transpose times itself is \<open>diag (1, 1, 9)\<close> and not the identity, and its determinant is
  \<open>- 3\<close> and not 1.
\<close>

theorem toRotationMatrix_not_orthonormal:
  "dot (Quaternion 0 0 1 0) (Quaternion 0 0 1 0) = 1 \<and>
   toRotationMatrix (Quaternion 0 0 1 0) =
     Mat3f (Val (- 1)) 0 0  0 1 0  0 0 (Val 3) \<and>
   mmul (transpose_Mat3f (toRotationMatrix (Quaternion 0 0 1 0)))
        (toRotationMatrix (Quaternion 0 0 1 0)) =
     Mat3f 1 0 0  0 1 0  0 0 (Val 9) \<and>
   mmul (transpose_Mat3f (toRotationMatrix (Quaternion 0 0 1 0)))
        (toRotationMatrix (Quaternion 0 0 1 0)) \<noteq> Mat3f_I \<and>
   det (toRotationMatrix (Quaternion 0 0 1 0)) = Val (- 3) \<and>
   det (toRotationMatrix (Quaternion 0 0 1 0)) \<noteq> 1"
  by (simp add: toRotationMatrix_def dot_def mmul_def transpose_Mat3f_def det_def Mat3f_I_def
      tReal_arith)

subsection \<open>The inertia tensor of a box\<close>

lemma zero_row_not_one: "Val 0 * u + Val 0 * v + Val 0 * w \<noteq> Val 1"
  by (cases u; cases v; cases w) (simp_all add: tReal_arith)

text \<open>
  C3: for every real width, height, depth and density, the constructor of \<^verbatim>\<open>Box\<close> stores the
  zero matrix in \<^verbatim>\<open>I0\<close>, since \<^verbatim>\<open>(1/12)\<close> is the integer quotient 0; the product of \<^verbatim>\<open>I0\<close> and
  \<^verbatim>\<open>I0inv\<close>, in either order, is therefore never the identity.
\<close>

theorem Box_I0_zero:
  "I0 (Box (Val w) (Val h) (Val d) (Val dens) v0 omega0) = Mat3f 0 0 0  0 0 0  0 0 0 \<and>
   mmul (I0 (Box (Val w) (Val h) (Val d) (Val dens) v0 omega0))
        (I0inv (Box (Val w) (Val h) (Val d) (Val dens) v0 omega0)) \<noteq> Mat3f_I \<and>
   mmul (I0inv (Box (Val w) (Val h) (Val d) (Val dens) v0 omega0))
        (I0 (Box (Val w) (Val h) (Val d) (Val dens) v0 omega0)) \<noteq> Mat3f_I"
proof -
  let ?b = "Box (Val w) (Val h) (Val d) (Val dens) v0 omega0"
  have z: "I0 ?b = Mat3f 0 0 0  0 0 0  0 0 0"
    by (simp add: Box_def Let_def smulm_def tReal_arith)
  have l: "m00 (mmul (I0 ?b) A) \<noteq> m00 Mat3f_I" for A
    unfolding z by (simp add: mmul_def Mat3f_I_def tReal_arith zero_row_not_one)
  have r: "m00 (mmul A (I0 ?b)) \<noteq> m00 Mat3f_I" for A
    unfolding z
    by (cases "m00 A"; cases "m01 A"; cases "m02 A")
       (simp_all add: mmul_def Mat3f_I_def tReal_arith)
  from l have "mmul (I0 ?b) (I0inv ?b) \<noteq> Mat3f_I"
    by metis
  moreover from r have "mmul (I0inv ?b) (I0 ?b) \<noteq> Mat3f_I"
    by metis
  ultimately show ?thesis
    using z by simp
qed

section \<open>One call to step\<close>

lemma computeForceAndTorque_bound:
  assumes "body s = Some b"
  shows "computeForceAndTorque s = Some (s\<lparr>body := Some
    (b\<lparr>F := (if s_step s = 1
              then vadd (vmuls (s_g s) (Val 0.1)) (vdivs (Vec3f (Val 1.0) 7 (Val 2.4)) (Val 5.0))
              else vmuls (s_g s) (Val 0.1)),
        tau := (if s_step s = 1 then Vec3f (Val 0.005) (Val 0.005) (Val 0.0) else Vec3f 0 0 0)\<rparr>)\<rparr>)"
  using assms by (simp add: computeForceAndTorque_def Let_def)

lemma step_bound:
  assumes "body s = Some b"
  shows "\<exists>b'. step dt s = Some (s\<lparr>body := Some b', s_step := s_step s + 1, s_sim_t := s_sim_t s + dt\<rparr>) \<and>
    F b' = (if s_step s = 1
            then vadd (vmuls (s_g s) (Val 0.1)) (vdivs (Vec3f (Val 1.0) 7 (Val 2.4)) (Val 5.0))
            else vmuls (s_g s) (Val 0.1)) \<and>
    tau b' = (if s_step s = 1 then Vec3f (Val 0.005) (Val 0.005) (Val 0.0) else Vec3f 0 0 0) \<and>
    V b' = vdivs (P b) (M b) \<and>
    omega b' = mmulv (Iinv b) (L b) \<and>
    P b' = vadd (P b) (smulv dt (F b')) \<and>
    L b' = vadd (L b) (smulv dt (tau b')) \<and>
    X b' = vadd (X b) (smulv dt (V b')) \<and>
    Q b' = normalize (Q b + qmuls (Quaternion 0 (vx (omega b')) (vy (omega b')) (vz (omega b')) * Q b) dt) \<and>
    R b' = toRotationMatrix (Q b') \<and>
    M b' = M b \<and> I0 b' = I0 b \<and> I0inv b' = I0inv b \<and> Iinv b' = Iinv b \<and> vdata0 b' = vdata0 b"
proof -
  define f where "f = (if s_step s = 1
            then vadd (vmuls (s_g s) (Val 0.1)) (vdivs (Vec3f (Val 1.0) 7 (Val 2.4)) (Val 5.0))
            else vmuls (s_g s) (Val 0.1))"
  define t where
    "t = (if s_step s = 1 then Vec3f (Val 0.005) (Val 0.005) (Val 0.0) else Vec3f 0 0 0)"
  define w where "w = mmulv (Iinv b) (L b)"
  define q where "q = normalize (Q b + qmuls (Quaternion 0 (vx w) (vy w) (vz w) * Q b) dt)"
  define b' where "b' = b\<lparr>F := f, tau := t, V := vdivs (P b) (M b), omega := w,
    P := vadd (P b) (smulv dt f), L := vadd (L b) (smulv dt t),
    X := vadd (X b) (smulv dt (vdivs (P b) (M b))), Q := q, R := toRotationMatrix q\<rparr>"
  have c: "computeForceAndTorque s = Some (s\<lparr>body := Some (b\<lparr>F := f, tau := t\<rparr>)\<rparr>)"
    unfolding f_def t_def by (rule computeForceAndTorque_bound [OF assms])
  have "step dt s = Some (s\<lparr>body := Some b', s_step := s_step s + 1, s_sim_t := s_sim_t s + dt\<rparr>)"
    by (simp add: step_def c Let_def b'_def q_def w_def)
  moreover have "F b' = f" "tau b' = t" "V b' = vdivs (P b) (M b)" "omega b' = mmulv (Iinv b) (L b)"
    "P b' = vadd (P b) (smulv dt (F b'))" "L b' = vadd (L b) (smulv dt (tau b'))"
    "X b' = vadd (X b) (smulv dt (V b'))"
    "Q b' = normalize (Q b + qmuls (Quaternion 0 (vx (omega b')) (vy (omega b')) (vz (omega b')) * Q b) dt)"
    "R b' = toRotationMatrix (Q b')"
    "M b' = M b" "I0 b' = I0 b" "I0inv b' = I0inv b" "Iinv b' = Iinv b" "vdata0 b' = vdata0 b"
    by (simp_all add: b'_def q_def w_def)
  ultimately show ?thesis
    unfolding f_def t_def by blast
qed

lemma step_null: "body s = None \<Longrightarrow> step dt s = None"
  by (simp add: step_def computeForceAndTorque_def)

lemma steps_bound:
  assumes "body s = Some b"
  shows "\<exists>s' b'. steps dts s = Some s' \<and> body s' = Some b' \<and>
    s_step s' = s_step s + length dts \<and> s_g s' = s_g s \<and>
    M b' = M b \<and> I0 b' = I0 b \<and> I0inv b' = I0inv b \<and> Iinv b' = Iinv b \<and> vdata0 b' = vdata0 b"
  using assms
proof (induction dts arbitrary: s b)
  case Nil
  then show ?case by simp
next
  case (Cons dt dts)
  from step_bound [OF Cons.prems, of dt] obtain b1 where
    s1: "step dt s = Some (s\<lparr>body := Some b1, s_step := s_step s + 1, s_sim_t := s_sim_t s + dt\<rparr>)"
    and f: "M b1 = M b" "I0 b1 = I0 b" "I0inv b1 = I0inv b" "Iinv b1 = Iinv b" "vdata0 b1 = vdata0 b"
    by blast
  let ?s1 = "s\<lparr>body := Some b1, s_step := s_step s + 1, s_sim_t := s_sim_t s + dt\<rparr>"
  have "body ?s1 = Some b1" by simp
  from Cons.IH [OF this] f s1 show ?case
    by auto
qed

text \<open>
  C9: a call to \<^verbatim>\<open>step\<close> on a bound body, and the call to \<^verbatim>\<open>computeForceAndTorque\<close> inside it,
  leave \<^verbatim>\<open>M\<close>, \<^verbatim>\<open>I0\<close>, \<^verbatim>\<open>I0inv\<close>, \<^verbatim>\<open>Iinv\<close> and \<^verbatim>\<open>vdata0\<close> as they were: \<^verbatim>\<open>Iinv\<close> keeps the value
  it had before the call, however the body rotates.
\<close>

theorem step_frame:
  assumes "body s = Some b"
  shows "\<exists>s1 b1 s' b'.
    computeForceAndTorque s = Some s1 \<and> body s1 = Some b1 \<and>
    M b1 = M b \<and> I0 b1 = I0 b \<and> I0inv b1 = I0inv b \<and> Iinv b1 = Iinv b \<and> vdata0 b1 = vdata0 b \<and>
    step dt s = Some s' \<and> body s' = Some b' \<and>
    M b' = M b \<and> I0 b' = I0 b \<and> I0inv b' = I0inv b \<and> Iinv b' = Iinv b \<and> vdata0 b' = vdata0 b"
proof -
  from step_bound [OF assms, of dt] obtain b' where
    "step dt s = Some (s\<lparr>body := Some b', s_step := s_step s + 1, s_sim_t := s_sim_t s + dt\<rparr>)"
    "M b' = M b" "I0 b' = I0 b" "I0inv b' = I0inv b" "Iinv b' = Iinv b" "vdata0 b' = vdata0 b"
    by blast
  then show ?thesis
    by (simp add: computeForceAndTorque_bound [OF assms])
qed

text \<open>
  C2: after \<^verbatim>\<open>init\<close> and the calls \<open>dts\<close>, the next call to \<^verbatim>\<open>step\<close> sets \<^verbatim>\<open>F\<close> to \<open>0.1 * g\<close> plus
  \<open>(1.0, 7, 2.4) / 5.0\<close> and \<^verbatim>\<open>tau\<close> to \<open>(.005, .005, 0)\<close> when it is the second call (one call
  came before it), and \<^verbatim>\<open>F\<close> to \<open>0.1 * g\<close> and \<^verbatim>\<open>tau\<close> to zero when it is the first call or any
  later one. These are the values \<^verbatim>\<open>computeForceAndTorque\<close> writes, and the values the body
  holds when \<^verbatim>\<open>step\<close> returns.
\<close>

theorem impulse_once:
  "\<exists>s1 s2 b2 s3 b3.
     steps dts (init (Some b) s0) = Some s1 \<and>
     computeForceAndTorque s1 = Some s2 \<and> body s2 = Some b2 \<and>
     step dt s1 = Some s3 \<and> body s3 = Some b3 \<and>
     F b2 = (if length dts = 1
             then vadd (vmuls (s_g s0) (Val 0.1)) (vdivs (Vec3f (Val 1.0) 7 (Val 2.4)) (Val 5.0))
             else vmuls (s_g s0) (Val 0.1)) \<and>
     tau b2 = (if length dts = 1 then Vec3f (Val 0.005) (Val 0.005) (Val 0.0) else Vec3f 0 0 0) \<and>
     F b3 = F b2 \<and> tau b3 = tau b2"
proof -
  have "body (init (Some b) s0) = Some b"
    by (simp add: init_def)
  from steps_bound [OF this, of dts] obtain s1 b1 where
    s1: "steps dts (init (Some b) s0) = Some s1" and b1: "body s1 = Some b1"
    and c: "s_step s1 = length dts" and g: "s_g s1 = s_g s0"
    by (auto simp add: init_def)
  from step_bound [OF b1, of dt] obtain b3 where
    "step dt s1 = Some (s1\<lparr>body := Some b3, s_step := s_step s1 + 1, s_sim_t := s_sim_t s1 + dt\<rparr>)"
    "F b3 = (if s_step s1 = 1
            then vadd (vmuls (s_g s1) (Val 0.1)) (vdivs (Vec3f (Val 1.0) 7 (Val 2.4)) (Val 5.0))
            else vmuls (s_g s1) (Val 0.1))"
    "tau b3 = (if s_step s1 = 1 then Vec3f (Val 0.005) (Val 0.005) (Val 0.0) else Vec3f 0 0 0)"
    by blast
  with s1 c g show ?thesis
    by (simp add: computeForceAndTorque_bound [OF b1])
qed

subsection \<open>The default box\<close>

lemma Box_default_fields:
  "M (BodyAttributes.truncate Box_default) = Val 10"
  "I0 (BodyAttributes.truncate Box_default) = Mat3f 0 0 0  0 0 0  0 0 0"
  "I0inv (BodyAttributes.truncate Box_default) =
     Mat3f (Val (3 / 5)) (Val 0) (Val 0)  (Val 0) (Val (3 / 5)) (Val 0)  (Val 0) (Val 0) (Val (3 / 5))"
  "Iinv (BodyAttributes.truncate Box_default) =
     Mat3f (Val (3 / 5)) (Val 0) (Val 0)  (Val 0) (Val (3 / 5)) (Val 0)  (Val 0) (Val 0) (Val (3 / 5))"
  "X (BodyAttributes.truncate Box_default) = Vec3f 0 0 0"
  "R (BodyAttributes.truncate Box_default) = Mat3f_I"
  "Q (BodyAttributes.truncate Box_default) = Quaternion 1 0 0 0"
  "P (BodyAttributes.truncate Box_default) = Vec3f 0 0 0"
  "L (BodyAttributes.truncate Box_default) = Vec3f 0 0 0"
  "V (BodyAttributes.truncate Box_default) = Vec3f 0 0 0"
  "omega (BodyAttributes.truncate Box_default) = Vec3f 0 0 0"
  by (simp_all add: Box_default_def Box_def Let_def BodyAttributes.truncate_def
      BodyAttributes.extend_def BodyAttributes_ctor_def smulm_def mmul_def mulTranspose_def
      transpose_Mat3f_def Mat3f_I_def tReal_arith)

lemma init_fields:
  "body (init body0 s) = body0" "s_g (init body0 s) = s_g s" "s_step (init body0 s) = 0"
  "s_sim_t (init body0 s) = 0"
  by (simp_all add: init_def)

theorem step_frame_witness:
  "\<exists>s' b'. step (Val 1) (init (Some (BodyAttributes.truncate Box_default)) RigidSolver_default) = Some s' \<and>
     body s' = Some b' \<and> M b' = Val 10 \<and> I0 b' = Mat3f 0 0 0  0 0 0  0 0 0 \<and>
     I0inv b' = Mat3f (Val (3 / 5)) (Val 0) (Val 0)  (Val 0) (Val (3 / 5)) (Val 0)  (Val 0) (Val 0) (Val (3 / 5)) \<and>
     Iinv b' = Mat3f (Val (3 / 5)) (Val 0) (Val 0)  (Val 0) (Val (3 / 5)) (Val 0)  (Val 0) (Val 0) (Val (3 / 5)) \<and>
     vdata0 b' = vdata0 (BodyAttributes.truncate Box_default)"
  using step_frame [of "init (Some (BodyAttributes.truncate Box_default)) RigidSolver_default"
      "BodyAttributes.truncate Box_default" "Val 1"]
  by (auto simp add: init_fields Box_default_fields)

section \<open>The norm of the orientation\<close>

lemma is_real_Vec3fE:
  assumes "is_real_Vec3f v"
  obtains x y z where "v = Vec3f (Val x) (Val y) (Val z)"
  using assms by (cases v) (auto simp add: is_real_Vec3f_def is_real_iff)

lemma is_real_mmulv: "is_real_Mat3f A \<Longrightarrow> is_real_Vec3f v \<Longrightarrow> is_real_Vec3f (mmulv A v)"
  by (cases A; cases v) (auto simp add: is_real_Mat3f_def is_real_Vec3f_def is_real_iff mmulv_def tReal_arith)

lemma pre_normalization_real:
  fixes a b c d x y z t :: real
  shows "(a + t * (0 * a - x * b - y * c - z * d)) * (a + t * (0 * a - x * b - y * c - z * d))
       + (b + t * (0 * b + x * a + y * d - z * c)) * (b + t * (0 * b + x * a + y * d - z * c))
       + (c + t * (0 * c - x * d + y * a + z * b)) * (c + t * (0 * c - x * d + y * a + z * b))
       + (d + t * (0 * d + x * c - y * b + z * a)) * (d + t * (0 * d + x * c - y * b + z * a))
       = (a * a + b * b + c * c + d * d) * (1 + t * t * (x * x + y * y + z * z))"
  by algebra

lemma pre_normalization_Val:
  "Quaternion (Val a) (Val b) (Val c) (Val d)
     + qmuls (Quaternion 0 (Val x) (Val y) (Val z) * Quaternion (Val a) (Val b) (Val c) (Val d)) (Val t)
   = Quaternion
       (Val (a + t * (0 * a - x * b - y * c - z * d)))
       (Val (b + t * (0 * b + x * a + y * d - z * c)))
       (Val (c + t * (0 * c - x * d + y * a + z * b)))
       (Val (d + t * (0 * d + x * c - y * b + z * a)))"
  by (simp add: plus_Quaternion_def qmuls_def times_Quaternion_def tReal_arith)

lemma pre_normalization_dot:
  assumes "dot p p = Val s" and "is_real_Vec3f w"
  shows "\<exists>k. 1 \<le> k \<and>
    dot (p + qmuls (Quaternion 0 (vx w) (vy w) (vz w) * p) (Val t))
        (p + qmuls (Quaternion 0 (vx w) (vy w) (vz w) * p) (Val t)) = Val (s * k)"
proof -
  from assms(1) obtain a b c d where p: "p = Quaternion (Val a) (Val b) (Val c) (Val d)"
    and s: "s = a * a + b * b + c * c + d * d"
    by (rule dot_self_real)
  from assms(2) obtain x y z where w: "w = Vec3f (Val x) (Val y) (Val z)"
    by (rule is_real_Vec3fE)
  have "1 \<le> 1 + t * t * (x * x + y * y + z * z)"
    by simp
  moreover have "dot (p + qmuls (Quaternion 0 (vx w) (vy w) (vz w) * p) (Val t))
        (p + qmuls (Quaternion 0 (vx w) (vy w) (vz w) * p) (Val t))
      = Val (s * (1 + t * t * (x * x + y * y + z * z)))"
    unfolding p w Vec3f.sel pre_normalization_Val s
    by (simp only: dot_def Quaternion.sel Val_times Val_plus pre_normalization_real)
  ultimately show ?thesis
    by blast
qed

lemma dot_normalize:
  assumes "dot p p = Val s" and "s \<noteq> 0"
  shows "dot (normalize p) (normalize p) = 1"
proof -
  from assms(1) obtain a b c d where p: "p = Quaternion (Val a) (Val b) (Val c) (Val d)"
    and s: "s = a * a + b * b + c * c + d * d"
    by (rule dot_self_real)
  from assms(2) s have "0 < a * a + b * b + c * c + d * d"
    using sum_squares_pos by blast
  then show ?thesis
    by (simp add: p dot_normalize_Val one_tReal_def)
qed

lemma step_unit:
  assumes b: "body s = Some b" and q: "dot (Q b) (Q b) = Val r" and r: "r \<noteq> 0"
    and i: "is_real_Mat3f (Iinv b)" and l: "is_real_Vec3f (L b)"
  shows "\<exists>b'. step (Val t) s =
      Some (s\<lparr>body := Some b', s_step := s_step s + 1, s_sim_t := s_sim_t s + Val t\<rparr>) \<and>
    dot (Q b') (Q b') = 1 \<and> is_real_Mat3f (Iinv b') \<and> is_real_Vec3f (L b')"
proof -
  from step_bound [OF b, of "Val t"] obtain b' where
    s': "step (Val t) s =
      Some (s\<lparr>body := Some b', s_step := s_step s + 1, s_sim_t := s_sim_t s + Val t\<rparr>)"
    and tau: "tau b' = (if s_step s = 1 then Vec3f (Val 0.005) (Val 0.005) (Val 0.0) else Vec3f 0 0 0)"
    and w: "omega b' = mmulv (Iinv b) (L b)"
    and l': "L b' = vadd (L b) (smulv (Val t) (tau b'))"
    and q': "Q b' = normalize (Q b + qmuls (Quaternion 0 (vx (omega b')) (vy (omega b')) (vz (omega b')) * Q b) (Val t))"
    and i': "Iinv b' = Iinv b"
    by blast
  from i l have "is_real_Vec3f (omega b')"
    unfolding w by (rule is_real_mmulv)
  from pre_normalization_dot [OF q this, of t] obtain k where k: "1 \<le> k"
    and d: "dot (Q b + qmuls (Quaternion 0 (vx (omega b')) (vy (omega b')) (vz (omega b')) * Q b) (Val t))
        (Q b + qmuls (Quaternion 0 (vx (omega b')) (vy (omega b')) (vz (omega b')) * Q b) (Val t)) = Val (r * k)"
    by blast
  from k r have "r * k \<noteq> 0"
    by simp
  with d have "dot (Q b') (Q b') = 1"
    unfolding q' by (rule dot_normalize)
  moreover from l have "is_real_Vec3f (L b')"
    unfolding l' tau
    by (cases "L b") (auto simp add: is_real_Vec3f_def is_real_iff vadd_def smulv_def tReal_arith)
  ultimately show ?thesis
    using s' i i' by auto
qed

lemma steps_unit:
  assumes "body s = Some b" and "dot (Q b) (Q b) = 1"
    and "is_real_Mat3f (Iinv b)" and "is_real_Vec3f (L b)" and "list_all is_real dts"
  shows "\<exists>s' b'. steps dts s = Some s' \<and> body s' = Some b' \<and>
    dot (Q b') (Q b') = 1 \<and> is_real_Mat3f (Iinv b') \<and> is_real_Vec3f (L b')"
  using assms
proof (induction dts arbitrary: s b)
  case Nil
  then show ?case by simp
next
  case (Cons dt dts)
  from Cons.prems(5) have "is_real dt" and rest: "list_all is_real dts"
    by simp_all
  then obtain t where t: "dt = Val t"
    using is_real_iff by blast
  from Cons.prems(2) have "dot (Q b) (Q b) = Val 1"
    by (simp add: one_tReal_def)
  from step_unit [OF Cons.prems(1) this _ Cons.prems(3,4), of t] obtain b1 where
    s1: "step dt s = Some (s\<lparr>body := Some b1, s_step := s_step s + 1, s_sim_t := s_sim_t s + dt\<rparr>)"
    and u: "dot (Q b1) (Q b1) = 1" "is_real_Mat3f (Iinv b1)" "is_real_Vec3f (L b1)"
    unfolding t by auto
  let ?s1 = "s\<lparr>body := Some b1, s_step := s_step s + 1, s_sim_t := s_sim_t s + dt\<rparr>"
  have "body ?s1 = Some b1" by simp
  from Cons.IH [OF this u rest] s1 show ?case
    by simp
qed

text \<open>
  C5: from a bound body whose quaternion has norm 1, with a real inverse inertia and a real
  angular momentum (so that the angular velocity is any real vector), every sequence of
  calls to \<^verbatim>\<open>step\<close> with real increments returns with a quaternion of norm 1. In the next
  call, for any real increment \<open>t\<close>, the quaternion \<open>Q + (0, omega) * Q * t\<close> that is handed to
  \<^verbatim>\<open>normalize\<close> has a real, nonzero dot product with itself.
\<close>

theorem step_keeps_unit_norm:
  assumes "body s = Some b" and "dot (Q b) (Q b) = 1"
    and "is_real_Mat3f (Iinv b)" and "is_real_Vec3f (L b)" and "list_all is_real dts"
  shows "\<exists>s' b' k. steps dts s = Some s' \<and> body s' = Some b' \<and>
    dot (Q b') (Q b') = 1 \<and> qnorm (Q b') = 1 \<and>
    dot (Q b' + qmuls (Quaternion 0 (vx (mmulv (Iinv b') (L b'))) (vy (mmulv (Iinv b') (L b')))
                        (vz (mmulv (Iinv b') (L b'))) * Q b') (Val t))
        (Q b' + qmuls (Quaternion 0 (vx (mmulv (Iinv b') (L b'))) (vy (mmulv (Iinv b') (L b')))
                        (vz (mmulv (Iinv b') (L b'))) * Q b') (Val t)) = Val k \<and>
    1 \<le> k"
proof -
  from steps_unit [OF assms] obtain s' b' where
    s': "steps dts s = Some s'" "body s' = Some b'" and u: "dot (Q b') (Q b') = 1"
    and r: "is_real_Mat3f (Iinv b')" "is_real_Vec3f (L b')"
    by blast
  from u have u1: "dot (Q b') (Q b') = Val 1"
    by (simp add: one_tReal_def)
  from r have "is_real_Vec3f (mmulv (Iinv b') (L b'))"
    by (rule is_real_mmulv)
  from pre_normalization_dot [OF u1 this, of t] s' u show ?thesis
    by (auto simp add: qnorm_def tReal_arith)
qed

theorem step_keeps_unit_norm_witness:
  "mmulv (Iinv (BodyAttributes.truncate Box_default\<lparr>L := Vec3f 0 0 1\<rparr>))
         (L (BodyAttributes.truncate Box_default\<lparr>L := Vec3f 0 0 1\<rparr>)) = Vec3f (Val 0) (Val 0) (Val (3 / 5)) \<and>
   (\<exists>s' b'. steps [Val 1, Val 2, Val 3]
        (init (Some (BodyAttributes.truncate Box_default\<lparr>L := Vec3f 0 0 1\<rparr>)) RigidSolver_default) = Some s' \<and>
      body s' = Some b' \<and> dot (Q b') (Q b') = 1 \<and> qnorm (Q b') = 1)"
proof -
  let ?b = "BodyAttributes.truncate Box_default\<lparr>L := Vec3f 0 0 1\<rparr>"
  let ?s = "init (Some ?b) RigidSolver_default"
  have 1: "body ?s = Some ?b"
    by (simp add: init_fields)
  have 2: "dot (Q ?b) (Q ?b) = 1"
    by (simp add: Box_default_fields dot_def tReal_arith)
  have 3: "is_real_Mat3f (Iinv ?b)"
    by (simp add: Box_default_fields is_real_Mat3f_def is_real_def)
  have 4: "is_real_Vec3f (L ?b)"
    by (simp add: is_real_Vec3f_def is_real_def tReal_arith)
  have 5: "list_all is_real [Val 1, Val 2, Val 3]"
    by (simp add: is_real_def)
  have "mmulv (Iinv ?b) (L ?b) = Vec3f (Val 0) (Val 0) (Val (3 / 5))"
    by (simp add: Box_default_fields mmulv_def tReal_arith)
  with step_keeps_unit_norm [OF 1 2 3 4 5, of 1] show ?thesis
    by blast
qed

section \<open>Linear momentum\<close>

lemma impulse_value:
  "vdivs (Vec3f (Val 1.0) 7 (Val 2.4)) (Val 5.0) = Vec3f (Val (1 / 5)) (Val (7 / 5)) (Val (12 / 25))"
  by (simp add: vdivs_def tReal_arith)

lemma step_momentum:
  assumes "body s = Some b" and "P b = Vec3f (Val px) (Val py) (Val pz)"
    and "s_g s = Vec3f (Val gx) (Val gy) (Val gz)"
  shows "\<exists>b'. step (Val t) s =
      Some (s\<lparr>body := Some b', s_step := s_step s + 1, s_sim_t := s_sim_t s + Val t\<rparr>) \<and>
    P b' = Vec3f
      (Val (px + t * (gx * (1 / 10)) + (if s_step s = 1 then t * (1 / 5) else 0)))
      (Val (py + t * (gy * (1 / 10)) + (if s_step s = 1 then t * (7 / 5) else 0)))
      (Val (pz + t * (gz * (1 / 10)) + (if s_step s = 1 then t * (12 / 25) else 0)))"
proof -
  from step_bound [OF assms(1), of "Val t"] obtain b' where
    s': "step (Val t) s =
      Some (s\<lparr>body := Some b', s_step := s_step s + 1, s_sim_t := s_sim_t s + Val t\<rparr>)"
    and f: "F b' = (if s_step s = 1
            then vadd (vmuls (s_g s) (Val 0.1)) (vdivs (Vec3f (Val 1.0) 7 (Val 2.4)) (Val 5.0))
            else vmuls (s_g s) (Val 0.1))"
    and p: "P b' = vadd (P b) (smulv (Val t) (F b'))"
    by blast
  have "P b' = Vec3f
      (Val (px + t * (gx * (1 / 10)) + (if s_step s = 1 then t * (1 / 5) else 0)))
      (Val (py + t * (gy * (1 / 10)) + (if s_step s = 1 then t * (7 / 5) else 0)))
      (Val (pz + t * (gz * (1 / 10)) + (if s_step s = 1 then t * (12 / 25) else 0)))"
    unfolding p f assms(2,3) impulse_value
    by (simp add: vadd_def smulv_def vmuls_def tReal_arith algebra_simps)
  with s' show ?thesis
    by blast
qed

lemma steps_momentum:
  assumes "body s = Some b" and "P b = Vec3f (Val px) (Val py) (Val pz)"
    and "s_g s = Vec3f (Val gx) (Val gy) (Val gz)"
  shows "\<exists>s' b'. steps (replicate n (Val t)) s = Some s' \<and> body s' = Some b' \<and>
    P b' = Vec3f
      (Val (px + real n * t * (gx * (1 / 10))
              + (if s_step s \<le> 1 \<and> 1 < s_step s + n then t * (1 / 5) else 0)))
      (Val (py + real n * t * (gy * (1 / 10))
              + (if s_step s \<le> 1 \<and> 1 < s_step s + n then t * (7 / 5) else 0)))
      (Val (pz + real n * t * (gz * (1 / 10))
              + (if s_step s \<le> 1 \<and> 1 < s_step s + n then t * (12 / 25) else 0)))"
  using assms
proof (induction n arbitrary: s b px py pz)
  case 0
  then show ?case by simp
next
  case (Suc n)
  from step_momentum [OF Suc.prems, of t] obtain b1 where
    s1: "step (Val t) s =
      Some (s\<lparr>body := Some b1, s_step := s_step s + 1, s_sim_t := s_sim_t s + Val t\<rparr>)"
    and p1: "P b1 = Vec3f
      (Val (px + t * (gx * (1 / 10)) + (if s_step s = 1 then t * (1 / 5) else 0)))
      (Val (py + t * (gy * (1 / 10)) + (if s_step s = 1 then t * (7 / 5) else 0)))
      (Val (pz + t * (gz * (1 / 10)) + (if s_step s = 1 then t * (12 / 25) else 0)))"
    by blast
  let ?s1 = "s\<lparr>body := Some b1, s_step := s_step s + 1, s_sim_t := s_sim_t s + Val t\<rparr>"
  have b1: "body ?s1 = Some b1" and g1: "s_g ?s1 = Vec3f (Val gx) (Val gy) (Val gz)"
    using Suc.prems(3) by simp_all
  from Suc.IH [OF b1 p1 g1] obtain s' b' where
    s': "steps (replicate n (Val t)) ?s1 = Some s'" "body s' = Some b'"
    and p': "P b' = Vec3f
      (Val (px + t * (gx * (1 / 10)) + (if s_step s = 1 then t * (1 / 5) else 0)
              + real n * t * (gx * (1 / 10))
              + (if s_step ?s1 \<le> 1 \<and> 1 < s_step ?s1 + n then t * (1 / 5) else 0)))
      (Val (py + t * (gy * (1 / 10)) + (if s_step s = 1 then t * (7 / 5) else 0)
              + real n * t * (gy * (1 / 10))
              + (if s_step ?s1 \<le> 1 \<and> 1 < s_step ?s1 + n then t * (7 / 5) else 0)))
      (Val (pz + t * (gz * (1 / 10)) + (if s_step s = 1 then t * (12 / 25) else 0)
              + real n * t * (gz * (1 / 10))
              + (if s_step ?s1 \<le> 1 \<and> 1 < s_step ?s1 + n then t * (12 / 25) else 0)))"
    by blast
  have "P b' = Vec3f
      (Val (px + real (Suc n) * t * (gx * (1 / 10))
              + (if s_step s \<le> 1 \<and> 1 < s_step s + Suc n then t * (1 / 5) else 0)))
      (Val (py + real (Suc n) * t * (gy * (1 / 10))
              + (if s_step s \<le> 1 \<and> 1 < s_step s + Suc n then t * (7 / 5) else 0)))
      (Val (pz + real (Suc n) * t * (gz * (1 / 10))
              + (if s_step s \<le> 1 \<and> 1 < s_step s + Suc n then t * (12 / 25) else 0)))"
    unfolding p' by (auto simp add: algebra_simps)
  with s1 s' show ?case
    by simp
qed

text \<open>
  From a fresh \<^verbatim>\<open>init\<close> the force is \<open>0.1 * g\<close> in every call but the second, which adds the
  impulse: with zero linear momentum at the start and a real gravity \<open>g\<close>, \<open>n\<close> calls with the
  real increment \<open>t\<close> leave the linear momentum \<open>n * t * (0.1 * g)\<close>, plus
  \<open>t * (1.0, 7, 2.4) / 5.0\<close> once a second call was made.
\<close>

lemma momentum_from_init:
  assumes "P b = Vec3f 0 0 0" and "s_g s0 = Vec3f (Val gx) (Val gy) (Val gz)"
  shows "\<exists>s' b'.
    steps (replicate n (Val t)) (init (Some b) s0) = Some s' \<and> body s' = Some b' \<and>
    P b' = vadd (smulv (Val (real n * t)) (vmuls (s_g s0) (Val 0.1)))
                (if 2 \<le> n then smulv (Val t) (vdivs (Vec3f (Val 1.0) 7 (Val 2.4)) (Val 5.0))
                 else Vec3f 0 0 0)"
proof -
  have 1: "body (init (Some b) s0) = Some b"
    and 2: "P b = Vec3f (Val 0) (Val 0) (Val 0)"
    and 3: "s_g (init (Some b) s0) = Vec3f (Val gx) (Val gy) (Val gz)"
    using assms by (simp_all add: init_fields tReal_arith)
  from steps_momentum [OF 1 2 3, of n t] obtain s' b' where
    s': "steps (replicate n (Val t)) (init (Some b) s0) = Some s'" "body s' = Some b'"
    and p: "P b' = Vec3f
      (Val (0 + real n * t * (gx * (1 / 10)) + (if 1 < n then t * (1 / 5) else 0)))
      (Val (0 + real n * t * (gy * (1 / 10)) + (if 1 < n then t * (7 / 5) else 0)))
      (Val (0 + real n * t * (gz * (1 / 10)) + (if 1 < n then t * (12 / 25) else 0)))"
    by (auto simp add: init_fields)
  have "P b' = vadd (smulv (Val (real n * t)) (vmuls (s_g s0) (Val 0.1)))
                (if 2 \<le> n then smulv (Val t) (vdivs (Vec3f (Val 1.0) 7 (Val 2.4)) (Val 5.0))
                 else Vec3f 0 0 0)"
    unfolding p assms(2) impulse_value
    by (auto simp add: vadd_def smulv_def vmuls_def tReal_arith)
  with s' show ?thesis
    by blast
qed

subsection \<open>A constant force\<close>

lemma steps_append:
  "steps (xs @ ys) s = (case steps xs s of None \<Rightarrow> None | Some s' \<Rightarrow> steps ys s')"
  by (induction xs arbitrary: s) (simp_all split: option.split)

lemma steps_last_force:
  assumes "body s = Some b"
  shows "\<exists>s' b'. steps (replicate (Suc k) dt) s = Some s' \<and> body s' = Some b' \<and>
    F b' = (if s_step s + k = 1
            then vadd (vmuls (s_g s) (Val 0.1)) (vdivs (Vec3f (Val 1.0) 7 (Val 2.4)) (Val 5.0))
            else vmuls (s_g s) (Val 0.1))"
proof -
  from steps_bound [OF assms, of "replicate k dt"] obtain s1 b1 where
    s1: "steps (replicate k dt) s = Some s1" and b1: "body s1 = Some b1"
    and c: "s_step s1 = s_step s + k" and g: "s_g s1 = s_g s"
    by auto
  from step_bound [OF b1, of dt] obtain b' where
    "step dt s1 = Some (s1\<lparr>body := Some b', s_step := s_step s1 + 1, s_sim_t := s_sim_t s1 + dt\<rparr>)"
    "F b' = (if s_step s1 = 1
            then vadd (vmuls (s_g s1) (Val 0.1)) (vdivs (Vec3f (Val 1.0) 7 (Val 2.4)) (Val 5.0))
            else vmuls (s_g s1) (Val 0.1))"
    by blast
  moreover have "replicate (Suc k) dt = replicate k dt @ [dt]"
    by (simp add: replicate_append_same)
  ultimately show ?thesis
    using s1 c g by (simp add: steps_append)
qed

lemma steps_constant_force:
  assumes "body s = Some b" and "P b = Vec3f (Val px) (Val py) (Val pz)"
    and "\<forall>k<n. \<exists>s' b'. steps (replicate (Suc k) (Val t)) s = Some s' \<and> body s' = Some b' \<and>
           F b' = Vec3f (Val fx) (Val fy) (Val fz)"
  shows "\<exists>s' b'. steps (replicate n (Val t)) s = Some s' \<and> body s' = Some b' \<and>
    P b' = Vec3f (Val (px + real n * t * fx)) (Val (py + real n * t * fy)) (Val (pz + real n * t * fz))"
  using assms
proof (induction n arbitrary: s b px py pz)
  case 0
  then show ?case by simp
next
  case (Suc n)
  from step_bound [OF Suc.prems(1), of "Val t"] obtain b1 where
    s1: "step (Val t) s =
      Some (s\<lparr>body := Some b1, s_step := s_step s + 1, s_sim_t := s_sim_t s + Val t\<rparr>)"
    and p1: "P b1 = vadd (P b) (smulv (Val t) (F b1))"
    by blast
  let ?s1 = "s\<lparr>body := Some b1, s_step := s_step s + 1, s_sim_t := s_sim_t s + Val t\<rparr>"
  have b1: "body ?s1 = Some b1"
    by simp
  from Suc.prems(3) have "\<exists>s' b'. steps (replicate (Suc 0) (Val t)) s = Some s' \<and> body s' = Some b' \<and>
      F b' = Vec3f (Val fx) (Val fy) (Val fz)"
    by blast
  with s1 have f1: "F b1 = Vec3f (Val fx) (Val fy) (Val fz)"
    by simp
  have p1': "P b1 = Vec3f (Val (px + t * fx)) (Val (py + t * fy)) (Val (pz + t * fz))"
    unfolding p1 f1 Suc.prems(2) by (simp add: vadd_def smulv_def tReal_arith)
  have rest: "\<forall>k<n. \<exists>s' b'. steps (replicate (Suc k) (Val t)) ?s1 = Some s' \<and> body s' = Some b' \<and>
      F b' = Vec3f (Val fx) (Val fy) (Val fz)"
  proof (intro allI impI)
    fix k
    assume "k < n"
    then have "Suc k < Suc n"
      by simp
    with Suc.prems(3) have "\<exists>s' b'. steps (replicate (Suc (Suc k)) (Val t)) s = Some s' \<and>
        body s' = Some b' \<and> F b' = Vec3f (Val fx) (Val fy) (Val fz)"
      by blast
    with s1 show "\<exists>s' b'. steps (replicate (Suc k) (Val t)) ?s1 = Some s' \<and> body s' = Some b' \<and>
        F b' = Vec3f (Val fx) (Val fy) (Val fz)"
      by simp
  qed
  from Suc.IH [OF b1 p1' rest] obtain s' b' where
    s': "steps (replicate n (Val t)) ?s1 = Some s'" "body s' = Some b'"
    and p': "P b' = Vec3f (Val (px + t * fx + real n * t * fx)) (Val (py + t * fy + real n * t * fy))
      (Val (pz + t * fz + real n * t * fz))"
    by blast
  have "P b' = Vec3f (Val (px + real (Suc n) * t * fx)) (Val (py + real (Suc n) * t * fy))
      (Val (pz + real (Suc n) * t * fz))"
    unfolding p' by (simp add: algebra_simps)
  with s1 s' show ?case
    by simp
qed

text \<open>
  C6: let the linear momentum of a bound body be zero, and let every one of \<open>n\<close> calls to
  \<^verbatim>\<open>step\<close> with the real increment \<open>t\<close> apply the same real force \<open>f\<close> (it is the force the body
  holds when the call returns). Then the linear momentum after the \<open>n\<close> calls is
  \<open>n * t * f\<close>. The solver may be in any state at the start, a fresh \<^verbatim>\<open>init\<close> among them.
\<close>

theorem momentum_constant_force:
  assumes "body s = Some b" and "P b = Vec3f 0 0 0" and "is_real_Vec3f f"
    and "\<forall>k<n. \<exists>s' b'. steps (replicate (Suc k) (Val t)) s = Some s' \<and> body s' = Some b' \<and>
           F b' = f"
  shows "\<exists>s' b'. steps (replicate n (Val t)) s = Some s' \<and> body s' = Some b' \<and>
    P b' = smulv (Val (real n * t)) f"
proof -
  from assms(3) obtain fx fy fz where f: "f = Vec3f (Val fx) (Val fy) (Val fz)"
    by (rule is_real_Vec3fE)
  from assms(2) have p: "P b = Vec3f (Val 0) (Val 0) (Val 0)"
    by (simp add: tReal_arith)
  from steps_constant_force [OF assms(1) p assms(4) [unfolded f]] show ?thesis
    unfolding f by (simp add: smulv_def tReal_arith)
qed

theorem momentum_constant_force_witness:
  "(\<exists>s' b'. steps (replicate 1 (Val (1 / 2)))
       (init (Some (BodyAttributes.truncate Box_default))
          (RigidSolver_ctor None (Vec3f (Val 0) (Val (- 10)) (Val 0)))) = Some s' \<and>
     body s' = Some b' \<and> F b' = Vec3f (Val 0) (Val (- 1)) (Val 0) \<and>
     P b' = Vec3f (Val 0) (Val (- 1 / 2)) (Val 0)) \<and>
   (\<exists>s' b'. steps (replicate 3 (Val (1 / 2)))
       (init (Some (BodyAttributes.truncate Box_default))
          (RigidSolver_ctor None (Vec3f (Val 0) (Val (- 10)) (Val 0)))\<lparr>s_step := 2\<rparr>) = Some s' \<and>
     body s' = Some b' \<and> F b' = Vec3f (Val 0) (Val (- 1)) (Val 0) \<and>
     P b' = Vec3f (Val 0) (Val (- 3 / 2)) (Val 0))"
proof -
  let ?b = "BodyAttributes.truncate Box_default"
  let ?s0 = "init (Some ?b) (RigidSolver_ctor None (Vec3f (Val 0) (Val (- 10)) (Val 0)))"
  let ?f = "Vec3f (Val 0) (Val (- 1)) (Val 0)"
  have b0: "body ?s0 = Some ?b" and b2: "body (?s0\<lparr>s_step := 2\<rparr>) = Some ?b"
    by (simp_all add: init_fields)
  have p: "P ?b = Vec3f 0 0 0"
    by (simp add: Box_default_fields)
  have r: "is_real_Vec3f ?f"
    by (simp add: is_real_Vec3f_def is_real_def)
  have g: "vmuls (s_g ?s0) (Val 0.1) = ?f"
    by (simp add: init_fields RigidSolver_ctor_def vmuls_def tReal_arith)
  have h0: "\<forall>k<1. \<exists>s' b'. steps (replicate (Suc k) (Val (1 / 2))) ?s0 = Some s' \<and>
      body s' = Some b' \<and> F b' = ?f"
  proof (intro allI impI)
    fix k :: nat
    assume "k < 1"
    with g have e: "(if s_step ?s0 + k = 1
        then vadd (vmuls (s_g ?s0) (Val 0.1)) (vdivs (Vec3f (Val 1.0) 7 (Val 2.4)) (Val 5.0))
        else vmuls (s_g ?s0) (Val 0.1)) = ?f"
      by (simp add: init_fields)
    from steps_last_force [OF b0, of k "Val (1 / 2)"]
    show "\<exists>s' b'. steps (replicate (Suc k) (Val (1 / 2))) ?s0 = Some s' \<and>
      body s' = Some b' \<and> F b' = ?f"
      unfolding e .
  qed
  have h2: "\<forall>k<3. \<exists>s' b'. steps (replicate (Suc k) (Val (1 / 2))) (?s0\<lparr>s_step := 2\<rparr>) = Some s' \<and>
      body s' = Some b' \<and> F b' = ?f"
  proof (intro allI impI)
    fix k :: nat
    from g have e: "(if s_step (?s0\<lparr>s_step := 2\<rparr>) + k = 1
        then vadd (vmuls (s_g (?s0\<lparr>s_step := 2\<rparr>)) (Val 0.1))
               (vdivs (Vec3f (Val 1.0) 7 (Val 2.4)) (Val 5.0))
        else vmuls (s_g (?s0\<lparr>s_step := 2\<rparr>)) (Val 0.1)) = ?f"
      by (simp add: init_fields)
    from steps_last_force [OF b2, of k "Val (1 / 2)"]
    show "\<exists>s' b'. steps (replicate (Suc k) (Val (1 / 2))) (?s0\<lparr>s_step := 2\<rparr>) = Some s' \<and>
      body s' = Some b' \<and> F b' = ?f"
      unfolding e .
  qed
  have n1: "(1::nat) = Suc 0" and n3: "(3::nat) = Suc 2"
    by simp_all
  from h0 have f0: "\<exists>s' b'. steps (replicate 1 (Val (1 / 2))) ?s0 = Some s' \<and>
      body s' = Some b' \<and> F b' = ?f"
    unfolding n1 by blast
  have "(2::nat) < Suc 2"
    by simp
  with h2 have f2: "\<exists>s' b'. steps (replicate 3 (Val (1 / 2))) (?s0\<lparr>s_step := 2\<rparr>) = Some s' \<and>
      body s' = Some b' \<and> F b' = ?f"
    unfolding n3 by blast
  from momentum_constant_force [OF b0 p r h0] f0
  have "\<exists>s' b'. steps (replicate 1 (Val (1 / 2))) ?s0 = Some s' \<and> body s' = Some b' \<and>
      F b' = ?f \<and> P b' = Vec3f (Val 0) (Val (- 1 / 2)) (Val 0)"
    by (auto simp add: smulv_def tReal_arith)
  moreover from momentum_constant_force [OF b2 p r h2] f2
  have "\<exists>s' b'. steps (replicate 3 (Val (1 / 2))) (?s0\<lparr>s_step := 2\<rparr>) = Some s' \<and>
      body s' = Some b' \<and> F b' = ?f \<and> P b' = Vec3f (Val 0) (Val (- 3 / 2)) (Val 0)"
    by (auto simp add: smulv_def tReal_arith)
  ultimately show ?thesis
    by blast
qed

lemmas run_simps =
  steps.simps step_def computeForceAndTorque_def init_def RigidSolver_default_def
  RigidSolver_ctor_def Let_def vadd_def smulv_def vmuls_def vdivs_def mmulv_def

section \<open>A body without momentum\<close>

lemma plus_zero_right: "u + Val 0 = (u :: tReal)"
  by (cases u) (simp_all add: tReal_arith)

lemma toRotationMatrix_identity: "toRotationMatrix (Quaternion 1 0 0 0) = Mat3f_I"
  by (simp add: toRotationMatrix_def Mat3f_I_def tReal_arith)

lemma normalize_unit:
  assumes "dot p p = 1"
  shows "normalize p = p"
proof -
  from assms have "dot p p = Val 1"
    by (simp add: one_tReal_def)
  then obtain a b c d where p: "p = Quaternion (Val a) (Val b) (Val c) (Val d)"
    and s: "1 = a * a + b * b + c * c + d * d"
    by (rule dot_self_real)
  have "0 < a * a + b * b + c * c + d * d"
    unfolding s [symmetric] by simp
  from normalize_Val [OF this] show ?thesis
    unfolding p s [symmetric] by simp
qed

lemma step_at_rest:
  assumes b: "body s = Some b" and m: "M b = Val m" "m \<noteq> 0" and p: "P b = Vec3f 0 0 0"
    and g: "s_g s = Vec3f 0 0 0" and c: "s_step s = 0"
  shows "\<exists>b'. step (Val t) s =
      Some (s\<lparr>body := Some b', s_step := s_step s + 1, s_sim_t := s_sim_t s + Val t\<rparr>) \<and>
    V b' = Vec3f 0 0 0 \<and> X b' = X b \<and> P b' = P b \<and>
    L b' = vadd (L b) (smulv (Val t) (Vec3f 0 0 0)) \<and>
    Q b' = normalize (Q b + qmuls (Quaternion 0 (vx (mmulv (Iinv b) (L b)))
      (vy (mmulv (Iinv b) (L b))) (vz (mmulv (Iinv b) (L b))) * Q b) (Val t)) \<and>
    R b' = toRotationMatrix (Q b')"
proof -
  from step_bound [OF b, of "Val t"] obtain b' where
    s': "step (Val t) s =
      Some (s\<lparr>body := Some b', s_step := s_step s + 1, s_sim_t := s_sim_t s + Val t\<rparr>)"
    and f: "F b' = vmuls (s_g s) (Val 0.1)" "tau b' = Vec3f 0 0 0"
    and v: "V b' = vdivs (P b) (M b)"
    and w: "omega b' = mmulv (Iinv b) (L b)"
    and p': "P b' = vadd (P b) (smulv (Val t) (F b'))"
    and l': "L b' = vadd (L b) (smulv (Val t) (tau b'))"
    and x': "X b' = vadd (X b) (smulv (Val t) (V b'))"
    and q': "Q b' = normalize (Q b + qmuls (Quaternion 0 (vx (omega b')) (vy (omega b')) (vz (omega b')) * Q b) (Val t))"
    and r': "R b' = toRotationMatrix (Q b')"
    using c by auto
  from m have v0: "V b' = Vec3f 0 0 0"
    unfolding v p by (simp add: vdivs_def tReal_arith)
  have "X b' = X b"
    unfolding x' v0 by (cases "X b") (simp add: vadd_def smulv_def tReal_arith plus_zero_right)
  moreover have "P b' = P b"
    unfolding p' f g p by (simp add: vadd_def smulv_def vmuls_def tReal_arith)
  ultimately show ?thesis
    using s' v0 l' q' r' unfolding f w by blast
qed

lemma step_inert_fields:
  assumes "M b = Val m" and "m \<noteq> 0" and "is_real_Mat3f (Iinv b)"
    and "P b = Vec3f 0 0 0" and "L b = Vec3f 0 0 0" and "dot (Q b) (Q b) = 1"
    and "s_g s0 = Vec3f 0 0 0"
  shows "\<exists>s' b'. step (Val t) (init (Some b) s0) = Some s' \<and> body s' = Some b' \<and>
    X b' = X b \<and> Q b' = Q b \<and> P b' = P b \<and> L b' = L b \<and> R b' = toRotationMatrix (Q b)"
proof -
  have "body (init (Some b) s0) = Some b" and "s_g (init (Some b) s0) = Vec3f 0 0 0"
    and "s_step (init (Some b) s0) = 0"
    using assms(7) by (simp_all add: init_fields)
  from step_at_rest [OF this(1) assms(1,2,4) this(2,3), of t] obtain s' b' where
    s': "step (Val t) (init (Some b) s0) = Some s'" "body s' = Some b'"
    and x: "X b' = X b" "P b' = P b"
    and l: "L b' = vadd (L b) (smulv (Val t) (Vec3f 0 0 0))"
    and q: "Q b' = normalize (Q b + qmuls (Quaternion 0 (vx (mmulv (Iinv b) (L b)))
      (vy (mmulv (Iinv b) (L b))) (vz (mmulv (Iinv b) (L b))) * Q b) (Val t))"
    and r: "R b' = toRotationMatrix (Q b')"
    by auto
  from assms(6) have "dot (Q b) (Q b) = Val 1"
    by (simp add: one_tReal_def)
  then obtain qa qb qc qd where qq: "Q b = Quaternion (Val qa) (Val qb) (Val qc) (Val qd)"
    by (rule dot_self_real)
  from assms(3) have w: "mmulv (Iinv b) (L b) = Vec3f (Val 0) (Val 0) (Val 0)"
    unfolding assms(5)
    by (cases "Iinv b") (auto simp add: is_real_Mat3f_def is_real_iff mmulv_def tReal_arith)
  have "Q b + qmuls (Quaternion 0 (vx (mmulv (Iinv b) (L b)))
      (vy (mmulv (Iinv b) (L b))) (vz (mmulv (Iinv b) (L b))) * Q b) (Val t) = Q b"
    unfolding w qq Vec3f.sel pre_normalization_Val by simp
  with q assms(6) have q': "Q b' = Q b"
    by (simp add: normalize_unit)
  have "L b' = L b"
    unfolding l assms(5) by (simp add: vadd_def smulv_def tReal_arith)
  with s' x q' r show ?thesis
    by auto
qed

lemma toRotationMatrix_qc_zero:
  assumes "qc p = 0"
  shows "toRotationMatrix p = rotation_matrix p"
proof -
  have "u * u - Val 0 * Val 0 = u * u + Val 0 * Val 0" for u :: tReal
    by (cases u) (simp_all add: tReal_arith)
  with assms show ?thesis
    by (simp add: toRotationMatrix_def rotation_matrix_def zero_tReal_def)
qed

text \<open>
  C4, as amended: for a body with a nonzero real mass, a real inverse inertia \<^verbatim>\<open>Iinv\<close>, zero
  momenta and a quaternion of norm 1, bound to a solver with zero gravity, the first call
  to \<^verbatim>\<open>step\<close> after \<^verbatim>\<open>init\<close>, with a real increment, leaves \<^verbatim>\<open>X\<close>, \<^verbatim>\<open>Q\<close>, \<^verbatim>\<open>P\<close> and \<^verbatim>\<open>L\<close> as they were. It
  leaves \<^verbatim>\<open>R\<close> as it was too when \<^verbatim>\<open>R\<close> was the rotation matrix of \<^verbatim>\<open>Q\<close> and the component \<^verbatim>\<open>c\<close>
  of \<^verbatim>\<open>Q\<close> is zero, as for the orientation the constructor gives a body, \<open>Q = (1, 0, 0, 0)\<close> and
  \<open>R\<close> the identity.
\<close>

theorem step_inert:
  assumes "M b = Val m" and "m \<noteq> 0" and "is_real_Mat3f (Iinv b)"
    and "P b = Vec3f 0 0 0" and "L b = Vec3f 0 0 0" and "dot (Q b) (Q b) = 1"
    and "s_g s0 = Vec3f 0 0 0"
  shows "\<exists>s' b'. step (Val t) (init (Some b) s0) = Some s' \<and> body s' = Some b' \<and>
    X b' = X b \<and> Q b' = Q b \<and> P b' = P b \<and> L b' = L b \<and>
    (R b = rotation_matrix (Q b) \<and> qc (Q b) = 0 \<longrightarrow> R b' = R b)"
proof -
  from step_inert_fields [OF assms, of t] obtain s' b' where
    "step (Val t) (init (Some b) s0) = Some s'" "body s' = Some b'"
    "X b' = X b" "Q b' = Q b" "P b' = P b" "L b' = L b" "R b' = toRotationMatrix (Q b)"
    by blast
  then show ?thesis
    by (auto simp add: toRotationMatrix_qc_zero)
qed

theorem step_inert_witness:
  "rotation_matrix (Quaternion 0 1 0 0) = Mat3f 1 0 0  0 (Val (- 1)) 0  0 0 (Val (- 1)) \<and>
   (\<exists>s' b'. step (Val 1) (init (Some (BodyAttributes.truncate Box_default
        \<lparr>R := Mat3f 1 0 0  0 (Val (- 1)) 0  0 0 (Val (- 1)), Q := Quaternion 0 1 0 0\<rparr>))
        RigidSolver_default) = Some s' \<and>
     body s' = Some b' \<and> X b' = Vec3f 0 0 0 \<and> Q b' = Quaternion 0 1 0 0 \<and> P b' = Vec3f 0 0 0 \<and>
     L b' = Vec3f 0 0 0 \<and> R b' = Mat3f 1 0 0  0 (Val (- 1)) 0  0 0 (Val (- 1)))"
proof -
  let ?b = "BodyAttributes.truncate Box_default
    \<lparr>R := Mat3f 1 0 0  0 (Val (- 1)) 0  0 0 (Val (- 1)), Q := Quaternion 0 1 0 0\<rparr>"
  have 1: "M ?b = Val 10" and 2: "(10::real) \<noteq> 0" and 3: "is_real_Mat3f (Iinv ?b)"
    and 4: "P ?b = Vec3f 0 0 0" and 5: "L ?b = Vec3f 0 0 0" and 6: "dot (Q ?b) (Q ?b) = 1"
    and 7: "s_g RigidSolver_default = Vec3f 0 0 0"
    by (simp_all add: Box_default_fields is_real_Mat3f_def is_real_def dot_def tReal_arith
        RigidSolver_default_def RigidSolver_ctor_def)
  have 8: "rotation_matrix (Quaternion 0 1 0 0) = Mat3f 1 0 0  0 (Val (- 1)) 0  0 0 (Val (- 1))"
    by (simp add: rotation_matrix_def tReal_arith)
  then have 9: "R ?b = rotation_matrix (Q ?b)" and 10: "qc (Q ?b) = 0"
    by simp_all
  from step_inert [OF 1 2 3 4 5 6 7, of 1] 8 9 10 show ?thesis
    by (auto simp add: Box_default_fields)
qed

lemma Box_fields:
  "M (BodyAttributes.truncate (Box (Val w) (Val h) (Val d) (Val dens) v0 omega0)) = Val (dens * w * h * d)"
  "X (BodyAttributes.truncate (Box w' h' d' dens' v0 omega0)) = Vec3f 0 0 0"
  "R (BodyAttributes.truncate (Box w' h' d' dens' v0 omega0)) = Mat3f_I"
  "Q (BodyAttributes.truncate (Box w' h' d' dens' v0 omega0)) = Quaternion 1 0 0 0"
  "P (BodyAttributes.truncate (Box w' h' d' dens' v0 omega0)) = Vec3f 0 0 0"
  "L (BodyAttributes.truncate (Box w' h' d' dens' v0 omega0)) = Vec3f 0 0 0"
  "V (BodyAttributes.truncate (Box w' h' d' dens' v0 omega0)) = v0"
  "omega (BodyAttributes.truncate (Box w' h' d' dens' v0 omega0)) = omega0"
  by (simp_all add: Box_def Let_def BodyAttributes.truncate_def BodyAttributes.extend_def
      BodyAttributes_ctor_def tReal_arith)

lemma Box_flat_Iinv:
  "Iinv (BodyAttributes.truncate (Box (Val 0) (Val 1) (Val 1) (Val 10) v0 omega0)) =
     Mat3f Undef Undef Undef Undef Undef Undef Undef Undef Undef"
  by (simp add: Box_def Let_def BodyAttributes.truncate_def BodyAttributes.extend_def
      BodyAttributes_ctor_def smulm_def mmul_def mulTranspose_def transpose_Mat3f_def Mat3f_I_def
      tReal_arith)

theorem step_inert_counterexample:
  "(let b = BodyAttributes.truncate (Box (Val 0) (Val 1) (Val 1) (Val 10) (Vec3f 0 0 0) (Vec3f 0 0 0)) in
     V b = Vec3f 0 0 0 \<and> omega b = Vec3f 0 0 0 \<and> P b = Vec3f 0 0 0 \<and> L b = Vec3f 0 0 0 \<and>
     Q b = Quaternion 1 0 0 0 \<and> qnorm (Q b) = 1 \<and> R b = Mat3f_I \<and> X b = Vec3f 0 0 0 \<and>
     M b = Val 0 \<and> s_g RigidSolver_default = Vec3f 0 0 0 \<and>
     map_option X (Option.bind (step (Val 1) (init (Some b) RigidSolver_default)) body)
       = Some (Vec3f Undef Undef Undef) \<and>
     map_option Q (Option.bind (step (Val 1) (init (Some b) RigidSolver_default)) body)
       = Some (Quaternion Undef Undef Undef Undef) \<and>
     map_option X (Option.bind (step (Val 1) (init (Some b) RigidSolver_default)) body) \<noteq> Some (X b) \<and>
     map_option Q (Option.bind (step (Val 1) (init (Some b) RigidSolver_default)) body) \<noteq> Some (Q b)) \<and>
   (let b = BodyAttributes.truncate Box_default\<lparr>R := Mat3f (Val (- 1)) 0 0  0 1 0  0 0 (Val (- 1))\<rparr> in
     V b = Vec3f 0 0 0 \<and> omega b = Vec3f 0 0 0 \<and> P b = Vec3f 0 0 0 \<and> L b = Vec3f 0 0 0 \<and>
     Q b = Quaternion 1 0 0 0 \<and> qnorm (Q b) = 1 \<and> M b = Val 10 \<and>
     R b = Mat3f (Val (- 1)) 0 0  0 1 0  0 0 (Val (- 1)) \<and>
     map_option R (Option.bind (step (Val 1) (init (Some b) RigidSolver_default)) body)
       = Some Mat3f_I \<and>
     map_option R (Option.bind (step (Val 1) (init (Some b) RigidSolver_default)) body) \<noteq> Some (R b))"
proof -
  let ?b = "BodyAttributes.truncate (Box (Val 0) (Val 1) (Val 1) (Val 10) (Vec3f 0 0 0) (Vec3f 0 0 0))"
  have "body (init (Some ?b) RigidSolver_default) = Some ?b"
    by (simp add: init_fields)
  from step_bound [OF this, of "Val 1"] obtain s' b' where
    s': "step (Val 1) (init (Some ?b) RigidSolver_default) = Some s'" "body s' = Some b'"
    and v: "V b' = vdivs (P ?b) (M ?b)"
    and x: "X b' = vadd (X ?b) (smulv (Val 1) (V b'))"
    and w: "omega b' = mmulv (Iinv ?b) (L ?b)"
    and q: "Q b' = normalize (Q ?b + qmuls (Quaternion 0 (vx (omega b')) (vy (omega b')) (vz (omega b')) * Q ?b) (Val 1))"
    by auto
  have x': "X b' = Vec3f Undef Undef Undef"
    unfolding x v by (simp add: Box_fields vdivs_def vadd_def smulv_def tReal_arith)
  have w': "omega b' = Vec3f Undef Undef Undef"
    unfolding w by (simp add: Box_fields Box_flat_Iinv mmulv_def tReal_arith)
  have "Quaternion 0 Undef Undef Undef * Quaternion 1 0 0 0 = Quaternion Undef Undef Undef Undef"
    by (simp add: times_Quaternion_def tReal_arith)
  then have q': "Q b' = Quaternion Undef Undef Undef Undef"
    unfolding q w' Vec3f.sel Box_fields
    by (simp add: normalize_def qmuls_def plus_Quaternion_def dot_def tReal_arith)
  have n: "qnorm (Quaternion 1 0 0 0) = 1" and g: "s_g RigidSolver_default = Vec3f 0 0 0"
    by (simp_all add: qnorm_def dot_def tReal_arith RigidSolver_default_def RigidSolver_ctor_def)
  from n g s' x' q' have first: "(let b = ?b in
     V b = Vec3f 0 0 0 \<and> omega b = Vec3f 0 0 0 \<and> P b = Vec3f 0 0 0 \<and> L b = Vec3f 0 0 0 \<and>
     Q b = Quaternion 1 0 0 0 \<and> qnorm (Q b) = 1 \<and> R b = Mat3f_I \<and> X b = Vec3f 0 0 0 \<and>
     M b = Val 0 \<and> s_g RigidSolver_default = Vec3f 0 0 0 \<and>
     map_option X (Option.bind (step (Val 1) (init (Some b) RigidSolver_default)) body)
       = Some (Vec3f Undef Undef Undef) \<and>
     map_option Q (Option.bind (step (Val 1) (init (Some b) RigidSolver_default)) body)
       = Some (Quaternion Undef Undef Undef Undef) \<and>
     map_option X (Option.bind (step (Val 1) (init (Some b) RigidSolver_default)) body) \<noteq> Some (X b) \<and>
     map_option Q (Option.bind (step (Val 1) (init (Some b) RigidSolver_default)) body) \<noteq> Some (Q b))"
    by (simp add: Box_fields tReal_arith)
  let ?c = "BodyAttributes.truncate Box_default\<lparr>R := Mat3f (Val (- 1)) 0 0  0 1 0  0 0 (Val (- 1))\<rparr>"
  have 1: "M ?c = Val 10" and 2: "(10::real) \<noteq> 0" and 3: "is_real_Mat3f (Iinv ?c)"
    and 4: "P ?c = Vec3f 0 0 0" and 5: "L ?c = Vec3f 0 0 0" and 6: "dot (Q ?c) (Q ?c) = 1"
    by (simp_all add: Box_default_fields is_real_Mat3f_def is_real_def dot_def tReal_arith)
  from step_inert_fields [OF 1 2 3 4 5 6 g, of 1] obtain s2 b2 where
    s2: "step (Val 1) (init (Some ?c) RigidSolver_default) = Some s2" "body s2 = Some b2"
    and r2: "R b2 = toRotationMatrix (Q ?c)"
    by blast
  from r2 have "R b2 = Mat3f_I"
    by (simp add: Box_default_fields toRotationMatrix_identity)
  with n s2 have second: "(let b = ?c in
     V b = Vec3f 0 0 0 \<and> omega b = Vec3f 0 0 0 \<and> P b = Vec3f 0 0 0 \<and> L b = Vec3f 0 0 0 \<and>
     Q b = Quaternion 1 0 0 0 \<and> qnorm (Q b) = 1 \<and> M b = Val 10 \<and>
     R b = Mat3f (Val (- 1)) 0 0  0 1 0  0 0 (Val (- 1)) \<and>
     map_option R (Option.bind (step (Val 1) (init (Some b) RigidSolver_default)) body)
       = Some Mat3f_I \<and>
     map_option R (Option.bind (step (Val 1) (init (Some b) RigidSolver_default)) body) \<noteq> Some (R b))"
    by (simp add: Box_default_fields Mat3f_I_def tReal_arith)
  from first second show ?thesis
    by blast
qed

section \<open>The initial velocities of a box\<close>

lemma step_overwrites_velocities:
  assumes "body s = Some b"
  shows "step dt (s\<lparr>body := Some (b\<lparr>V := v, omega := w\<rparr>)\<rparr>) = step dt s"
  using assms by (simp add: step_def computeForceAndTorque_def Let_def)

lemma Box_velocities:
  "BodyAttributes.truncate (Box w h d dens v1 omega1) =
   (BodyAttributes.truncate (Box w h d dens v0 omega0))\<lparr>V := v1, omega := omega1\<rparr>"
  by (simp add: Box_def Let_def BodyAttributes.truncate_def BodyAttributes.extend_def)

text \<open>
  C7, as amended: for every box of nonzero real width, height, depth and density (so that
  its mass is not zero), whatever initial velocities \<open>v0\<close> and \<open>omega0\<close> its constructor is
  given, it stores them in \<^verbatim>\<open>V\<close> and \<^verbatim>\<open>omega\<close> and leaves \<^verbatim>\<open>P\<close> and \<^verbatim>\<open>L\<close> zero; bound to a solver
  with zero gravity, the first call to \<^verbatim>\<open>step\<close>, with a real increment, leaves \<^verbatim>\<open>X\<close> as it was
  and \<^verbatim>\<open>V\<close> zero. The call returns the same solver and body for any other initial
  velocities \<open>v1\<close> and \<open>omega1\<close>.
\<close>

theorem Box_initial_velocity_unused:
  assumes "dens * w * h * d \<noteq> 0" and "s_g s0 = Vec3f 0 0 0"
  shows "V (BodyAttributes.truncate (Box (Val w) (Val h) (Val d) (Val dens) v0 omega0)) = v0 \<and>
    omega (BodyAttributes.truncate (Box (Val w) (Val h) (Val d) (Val dens) v0 omega0)) = omega0 \<and>
    P (BodyAttributes.truncate (Box (Val w) (Val h) (Val d) (Val dens) v0 omega0)) = Vec3f 0 0 0 \<and>
    L (BodyAttributes.truncate (Box (Val w) (Val h) (Val d) (Val dens) v0 omega0)) = Vec3f 0 0 0 \<and>
    (\<exists>s' b'. step (Val t) (init (Some (BodyAttributes.truncate
          (Box (Val w) (Val h) (Val d) (Val dens) v0 omega0))) s0) = Some s' \<and>
       body s' = Some b' \<and>
       X b' = X (BodyAttributes.truncate (Box (Val w) (Val h) (Val d) (Val dens) v0 omega0)) \<and>
       V b' = Vec3f 0 0 0 \<and>
       step (Val t) (init (Some (BodyAttributes.truncate
          (Box (Val w) (Val h) (Val d) (Val dens) v1 omega1))) s0) = Some s')"
proof -
  let ?b = "BodyAttributes.truncate (Box (Val w) (Val h) (Val d) (Val dens) v0 omega0)"
  let ?b1 = "BodyAttributes.truncate (Box (Val w) (Val h) (Val d) (Val dens) v1 omega1)"
  have "body (init (Some ?b) s0) = Some ?b" and "s_g (init (Some ?b) s0) = Vec3f 0 0 0"
    and "s_step (init (Some ?b) s0) = 0"
    using assms(2) by (simp_all add: init_fields)
  from step_at_rest [OF this(1) Box_fields(1) assms(1) Box_fields(5) this(2,3), of t]
  obtain s' b' where s': "step (Val t) (init (Some ?b) s0) = Some s'" "body s' = Some b'"
    and x: "X b' = X ?b" "V b' = Vec3f 0 0 0"
    by auto
  have "?b1 = ?b\<lparr>V := v1, omega := omega1\<rparr>"
    by (rule Box_velocities)
  then have "init (Some ?b1) s0 = (init (Some ?b) s0)\<lparr>body := Some (?b\<lparr>V := v1, omega := omega1\<rparr>)\<rparr>"
    by (simp add: init_def)
  with step_overwrites_velocities [OF \<open>body (init (Some ?b) s0) = Some ?b\<close>, where dt = "Val t" and v = v1 and w = omega1]
  have "step (Val t) (init (Some ?b1) s0) = step (Val t) (init (Some ?b) s0)"
    by simp
  with s' x show ?thesis
    by (simp add: Box_fields)
qed

theorem Box_initial_velocity_unused_witness:
  "V (BodyAttributes.truncate (Box (Val 1) (Val 1) (Val 1) (Val 10) (Vec3f 1 0 0) (Vec3f 0 1 0)))
     = Vec3f 1 0 0 \<and>
   (\<exists>s' b'. step (Val 1) (init (Some (BodyAttributes.truncate
         (Box (Val 1) (Val 1) (Val 1) (Val 10) (Vec3f 1 0 0) (Vec3f 0 1 0)))) RigidSolver_default) = Some s' \<and>
      body s' = Some b' \<and> X b' = Vec3f 0 0 0 \<and> V b' = Vec3f 0 0 0 \<and>
      step (Val 1) (init (Some (BodyAttributes.truncate Box_default)) RigidSolver_default) = Some s')"
proof -
  have 1: "(10::real) * 1 * 1 * 1 \<noteq> 0" and 2: "s_g RigidSolver_default = Vec3f 0 0 0"
    by (simp_all add: RigidSolver_default_def RigidSolver_ctor_def)
  from Box_initial_velocity_unused [OF 1 2, of "Vec3f 1 0 0" "Vec3f 0 1 0" 1 "Vec3f 0 0 0" "Vec3f 0 0 0"]
  show ?thesis
    by (simp add: Box_fields Box_default_def)
qed

theorem Box_initial_velocity_counterexample:
  "(let b = BodyAttributes.truncate (Box (Val 0) (Val 1) (Val 1) (Val 10) (Vec3f 1 0 0) (Vec3f 0 0 0)) in
     V b = Vec3f 1 0 0 \<and> P b = Vec3f 0 0 0 \<and> L b = Vec3f 0 0 0 \<and> X b = Vec3f 0 0 0 \<and>
     M b = Val 0 \<and> s_g RigidSolver_default = Vec3f 0 0 0 \<and>
     map_option V (Option.bind (step (Val 1) (init (Some b) RigidSolver_default)) body)
       = Some (Vec3f Undef Undef Undef) \<and>
     map_option X (Option.bind (step (Val 1) (init (Some b) RigidSolver_default)) body)
       = Some (Vec3f Undef Undef Undef) \<and>
     map_option V (Option.bind (step (Val 1) (init (Some b) RigidSolver_default)) body)
       \<noteq> Some (Vec3f 0 0 0) \<and>
     map_option X (Option.bind (step (Val 1) (init (Some b) RigidSolver_default)) body) \<noteq> Some (X b))"
  by (simp add: run_simps Box_fields Box_flat_Iinv tReal_arith)

end
